theory Spec2Isabelle
  imports Complex_Main "HOL-Library.Multiset" "HOL-Library.List_Lexorder"
begin

section \<open>Strings and cells\<close>

text \<open>
  A Python \<open>str\<close> is a sequence of Unicode code points, compared code point by code point.
  It is modelled as a list of natural numbers with the lexicographic order of
  \<open>HOL-Library.List_Lexorder\<close>. \<open>py ''abc''\<close> is the ASCII literal \<open>"abc"\<close>.
  A cell of an object column is \<open>Some s\<close> for the string \<open>s\<close> and \<open>None\<close> for pandas' NaN.
  Coordinates are only carried from the sources to the output, never computed with; they
  are modelled by the decimal value of their text.
\<close>

type_synonym pystr = "nat list"

abbreviation py :: "string \<Rightarrow> pystr" where
  "py s \<equiv> map of_char s"

text \<open>\<open>str.isspace\<close> for one code point, the characters \<open>str.strip()\<close> removes.\<close>

definition py_isspace :: "nat \<Rightarrow> bool" where
  "py_isspace c \<longleftrightarrow>
     c \<in> set [9, 10, 11, 12, 13, 28, 29, 30, 31, 32, 133, 160, 5760, 8232, 8233, 8239, 8287, 12288]
     \<or> (8192 \<le> c \<and> c \<le> 8202)"

definition strip :: "pystr \<Rightarrow> pystr" where
  "strip s = rev (dropWhile py_isspace (rev (dropWhile py_isspace s)))"

text \<open>\<open>Series.str.strip()\<close>: strings are stripped, NaN stays NaN.\<close>

definition str_strip :: "pystr option \<Rightarrow> pystr option" where
  "str_strip c = map_option strip c"

subsection \<open>Reading a text cell\<close>

text \<open>
  The default missing-value markers of the pandas readers. With \<open>keep_default_na=True\<close> a
  text cell equal to one of them is read as NaN; with \<open>keep_default_na=False\<close> (and no
  \<open>na_values\<close>, as in both calls of the source) no text is read as NaN.
\<close>

definition default_na_values :: "pystr list" where
  "default_na_values =
     [py '''', py ''#N/A'', py ''#N/A N/A'', py ''#NA'', py ''-1.#IND'', py ''-1.#QNAN'',
      py ''-NaN'', py ''-nan'', py ''1.#IND'', py ''1.#QNAN'', py ''<NA>'', py ''N/A'',
      py ''NA'', py ''NULL'', py ''NaN'', py ''None'', py ''n/a'', py ''nan'', py ''null'']"

definition read_cell :: "bool \<Rightarrow> pystr \<Rightarrow> pystr option" where
  "read_cell keep_default_na s =
     (if keep_default_na \<and> s \<in> set default_na_values then None else Some s)"

section \<open>Generic frame operations\<close>

text \<open>
  \<open>DataFrame.sort_values(by)\<close> with the default \<open>na_position='last'\<close>: the rows with a key
  are ordered by it, the rows without a key follow. The order among rows with equal keys is
  the library's choice (here: the order they had); no theorem below depends on it.
\<close>

definition sort_values :: "('a \<Rightarrow> 'k::linorder option) \<Rightarrow> 'a list \<Rightarrow> 'a list" where
  "sort_values by_col df =
     sort_key (\<lambda>r. the (by_col r)) [r \<leftarrow> df. by_col r \<noteq> None] @ [r \<leftarrow> df. by_col r = None]"

datatype indicator = left_only | right_only | both

text \<open>
  \<open>left.merge(right, on=keys, how='left', indicator=True)\<close> where the right frame has the
  key columns only: every left row, once per matching right row and marked \<open>both\<close>, or once
  and marked \<open>left_only\<close> when nothing matches.
\<close>

definition merge_left_indicator :: "('a \<Rightarrow> 'k) \<Rightarrow> 'a list \<Rightarrow> 'k list \<Rightarrow> ('a \<times> indicator) list" where
  "merge_left_indicator on_cols left right =
     concat (map (\<lambda>l. case [k \<leftarrow> right. k = on_cols l] of
                          [] \<Rightarrow> [(l, left_only)]
                        | ms \<Rightarrow> map (\<lambda>_. (l, both)) ms) left)"

section \<open>fetch_centroids\<close>

text \<open>A row of the centroid source; \<open>'s\<close> is the type of a text cell before or after reading.\<close>

record 's raw_centroid =
  longitude :: real
  latitude :: real
  COUNTRY :: 's
  ISO :: 's
  COUNTRYAFF :: 's
  AFF_ISO :: 's

record centroid =
  country :: "pystr option"
  iso :: "pystr option"
  latitude :: real
  longitude :: real

definition read_csv :: "bool \<Rightarrow> pystr raw_centroid list \<Rightarrow> pystr option raw_centroid list" where
  "read_csv keep_default_na text =
     map (\<lambda>l. \<lparr> raw_centroid.longitude = raw_centroid.longitude l,
                raw_centroid.latitude = raw_centroid.latitude l,
                COUNTRY = read_cell keep_default_na (COUNTRY l),
                ISO = read_cell keep_default_na (ISO l),
                COUNTRYAFF = read_cell keep_default_na (COUNTRYAFF l),
                AFF_ISO = read_cell keep_default_na (AFF_ISO l) \<rparr>) text"

text \<open>The rows of \<open>_exclude_rows\<close>, as (ISO, COUNTRY).\<close>

definition exclude_rows :: "(pystr option \<times> pystr option) list" where
  "exclude_rows =
     [(Some (py ''TF''), Some (py ''Juan De Nova Island'')),
      (Some (py ''TF''), Some (py ''Glorioso Islands'')),
      (Some (py ''BQ''), Some (py ''Saba'')),
      (Some (py ''BQ''), Some (py ''Saint Eustatius'')),
      (Some (py ''ES''), Some (py ''Canarias''))]"

text \<open>Lines 31 to 36: the left merge with the exclusion frame, keeping the \<open>left_only\<close> rows.\<close>

definition exclude_merge :: "pystr option raw_centroid list \<Rightarrow> pystr option raw_centroid list" where
  "exclude_merge centroids_df_raw =
     (let merge_ind = merge_left_indicator (\<lambda>r. (ISO r, COUNTRY r)) centroids_df_raw exclude_rows
      in map fst [p \<leftarrow> merge_ind. snd p = left_only])"

text \<open>Lines 39 and 40: both columns stripped, after the exclusion.\<close>

definition strip_columns :: "pystr option raw_centroid \<Rightarrow> pystr option raw_centroid" where
  "strip_columns r = (r\<lparr> ISO := str_strip (ISO r) \<rparr>)\<lparr> COUNTRY := str_strip (COUNTRY r) \<rparr>"

text \<open>Lines 41 to 48: the columns COUNTRYAFF and AFF_ISO dropped, ISO and COUNTRY renamed.\<close>

definition drop_rename :: "pystr option raw_centroid \<Rightarrow> centroid" where
  "drop_rename r =
     \<lparr> country = COUNTRY r, iso = ISO r,
       latitude = raw_centroid.latitude r, longitude = raw_centroid.longitude r \<rparr>"

definition missing_lat_lon :: "centroid list" where
  "missing_lat_lon =
     [\<lparr> country = Some (py ''Hong Kong''), iso = Some (py ''HK''),
        latitude = 22.3964, longitude = 114.1095 \<rparr>,
      \<lparr> country = Some (py ''Macau''), iso = Some (py ''MO''),
        latitude = 22.2109, longitude = 113.5525 \<rparr>,
      \<lparr> country = Some (197 # py ''land Islands''), iso = Some (py ''AX''),
        latitude = 60.25, longitude = 20.0 \<rparr>,
      \<lparr> country = Some (py ''Western Sahara''), iso = Some (py ''EH''),
        latitude = 24.5, longitude = -13 \<rparr>]"

definition fetch_centroids :: "pystr raw_centroid list \<Rightarrow> centroid list" where
  "fetch_centroids text =
     (let centroids_df_raw = read_csv False text;
          centroids_df = exclude_merge centroids_df_raw;
          centroids_df = map strip_columns centroids_df;
          centroids_df = map drop_rename (sort_values ISO centroids_df);
          centroids_df = centroids_df @ missing_lat_lon
      in centroids_df)"

text \<open>The frame \<open>centroids_df\<close> after line 40: the rows that pass the exclusion, stripped.\<close>

definition cleaned_rows :: "pystr raw_centroid list \<Rightarrow> pystr option raw_centroid list" where
  "cleaned_rows text =
     map strip_columns [r \<leftarrow> read_csv False text. (ISO r, COUNTRY r) \<notin> set exclude_rows]"

section \<open>fetch_un_data\<close>

text \<open>
  A row of the table \<open>downloadTableEN\<close>, by the column names the source uses. The M49 code
  is a number; the other cells are text.
\<close>

record 's un_raw =
  Country_or_Area :: 's
  M49_Code :: int
  Region_Name :: 's
  Sub_region_Name :: 's
  ISO_alpha3_Code :: 's
  ISO_alpha2_Code :: 's
  Least_Developed_Countries_LDC :: 's

record un_row =
  region :: "pystr option"
  subregion :: "pystr option"
  m49 :: int
  iso3 :: "pystr option"
  iso2 :: "pystr option"
  ldc :: bool

definition read_html :: "bool \<Rightarrow> pystr un_raw list \<Rightarrow> pystr option un_raw list" where
  "read_html keep_default_na text =
     map (\<lambda>l. \<lparr> Country_or_Area = read_cell keep_default_na (Country_or_Area l),
                M49_Code = M49_Code l,
                Region_Name = read_cell keep_default_na (Region_Name l),
                Sub_region_Name = read_cell keep_default_na (Sub_region_Name l),
                ISO_alpha3_Code = read_cell keep_default_na (ISO_alpha3_Code l),
                ISO_alpha2_Code = read_cell keep_default_na (ISO_alpha2_Code l),
                Least_Developed_Countries_LDC =
                  read_cell keep_default_na (Least_Developed_Countries_LDC l) \<rparr>) text"

text \<open>Line 106: \<open>lambda x: True if x == 'x' else False\<close>.\<close>

definition ldc_marker :: "pystr option \<Rightarrow> bool" where
  "ldc_marker x = (if x = Some (py ''x'') then True else False)"

text \<open>
  Lines 105 to 122 on one row: the column \<open>ldc\<close> is added, the columns are renamed, and the
  six columns of the final selection are kept. \<open>Country or Area\<close> is renamed to \<open>country\<close>
  but is not in the selection.
\<close>

definition select_un :: "pystr option un_raw \<Rightarrow> un_row" where
  "select_un r =
     \<lparr> region = Region_Name r, subregion = Sub_region_Name r, m49 = M49_Code r,
       iso3 = ISO_alpha3_Code r, iso2 = ISO_alpha2_Code r,
       ldc = ldc_marker (Least_Developed_Countries_LDC r) \<rparr>"

definition fetch_un_data :: "pystr un_raw list \<Rightarrow> un_row list" where
  "fetch_un_data text = (let df = read_html False text in map select_un df)"

subsection \<open>The same steps on the column names\<close>

datatype error = KeyError | IntCastingNaNError

text \<open>\<open>df.rename(columns=mapping)\<close>: a name in the mapping is replaced, any other name is kept.\<close>

definition rename_columns :: "(string \<times> string) list \<Rightarrow> string list \<Rightarrow> string list" where
  "rename_columns mapping cols =
     map (\<lambda>c. case map_of mapping c of Some c' \<Rightarrow> c' | None \<Rightarrow> c) cols"

text \<open>\<open>df[[names]]\<close>: the named columns in the order asked for; KeyError when one is missing.\<close>

definition select_columns :: "string list \<Rightarrow> string list \<Rightarrow> error + string list" where
  "select_columns names cols = (if set names \<subseteq> set cols then Inr names else Inl KeyError)"

text \<open>\<open>df[name] = ...\<close>: a new column goes last, an existing one keeps its place.\<close>

definition assign_column :: "string \<Rightarrow> string list \<Rightarrow> string list" where
  "assign_column name cols = (if name \<in> set cols then cols else cols @ [name])"

definition un_rename_mapping :: "(string \<times> string) list" where
  "un_rename_mapping =
     [(''Country or Area'', ''country''), (''M49 Code'', ''m49''),
      (''Region Name'', ''region''), (''Sub-region Name'', ''subregion''),
      (''ISO-alpha3 Code'', ''iso3''), (''ISO-alpha2 Code'', ''iso2'')]"

definition un_selection :: "string list" where
  "un_selection = [''region'', ''subregion'', ''m49'', ''iso3'', ''iso2'', ''ldc'']"

text \<open>The columns \<open>fetch_un_data\<close> returns, from the columns the HTML table has.\<close>

definition fetch_un_data_columns :: "string list \<Rightarrow> error + string list" where
  "fetch_un_data_columns cols =
     (if ''Least Developed Countries (LDC)'' \<notin> set cols then Inl KeyError
      else select_columns un_selection
             (rename_columns un_rename_mapping (assign_column ''ldc'' cols)))"

section \<open>The reconciliation of the two tables\<close>

text \<open>
  \<open>pd.merge(left, right, left_on, right_on, how='outer')\<close>: every left row joined to each
  right row with the same key, or alone when there is none, and every right row whose key no
  left row has, alone. Equal keys match, also two NaN keys. The order of the rows of an
  outer merge is the library's choice; nothing below depends on it, and the table is sorted by
  country before it is written.
\<close>

definition merge_outer ::
  "('l \<Rightarrow> 'k) \<Rightarrow> ('r \<Rightarrow> 'k) \<Rightarrow> 'l list \<Rightarrow> 'r list \<Rightarrow> ('l option \<times> 'r option) list" where
  "merge_outer left_on right_on left right =
     concat (map (\<lambda>l. case [r \<leftarrow> right. right_on r = left_on l] of
                          [] \<Rightarrow> [(Some l, None)]
                        | ms \<Rightarrow> map (\<lambda>r. (Some l, Some r)) ms) left)
     @ map (\<lambda>r. (None, Some r)) [r \<leftarrow> right. right_on r \<notin> set (map left_on left)]"

text \<open>A row of \<open>merged\<close> after \<open>.drop(columns=['iso'])\<close>; the fields of an absent side are NaN.\<close>

record merged_row =
  region :: "pystr option"
  subregion :: "pystr option"
  m49 :: "int option"
  iso3 :: "pystr option"
  iso2 :: "pystr option"
  ldc :: "bool option"
  country :: "pystr option"
  latitude :: "real option"
  longitude :: "real option"

definition join_row :: "un_row option \<times> centroid option \<Rightarrow> merged_row" where
  "join_row p =
     \<lparr> region = Option.bind (fst p) un_row.region,
       subregion = Option.bind (fst p) un_row.subregion,
       m49 = map_option un_row.m49 (fst p),
       iso3 = Option.bind (fst p) un_row.iso3,
       iso2 = Option.bind (fst p) un_row.iso2,
       ldc = map_option un_row.ldc (fst p),
       country = Option.bind (snd p) centroid.country,
       latitude = map_option centroid.latitude (snd p),
       longitude = map_option centroid.longitude (snd p) \<rparr>"

text \<open>Lines 131 to 137.\<close>

definition merge_step :: "un_row list \<Rightarrow> centroid list \<Rightarrow> merged_row list" where
  "merge_step un_data centroids = map join_row (merge_outer un_row.iso2 centroid.iso un_data centroids)"

subsection \<open>Comtrade codes\<close>

record comtrade_row = merged_row +
  m49_comtrade :: "int option"

record final_row = comtrade_row +
  non_country_region :: bool

definition alternate_comtrade_m49_codes :: "(int \<times> pystr) list" where
  "alternate_comtrade_m49_codes =
     [(251, py ''France''), (579, py ''Norway''), (699, py ''India''),
      (757, py ''Switzerland''), (842, py ''United States'')]"

text \<open>Line 149: \<open>merged['m49_comtrade'] = merged['m49']\<close>.\<close>

definition init_comtrade :: "merged_row \<Rightarrow> comtrade_row" where
  "init_comtrade r =
     \<lparr> region = region r, subregion = subregion r, m49 = m49 r, iso3 = iso3 r, iso2 = iso2 r,
       ldc = ldc r, country = country r, latitude = latitude r, longitude = longitude r,
       m49_comtrade = m49 r \<rparr>"

definition not_found_message :: "pystr \<Rightarrow> pystr" where
  "not_found_message country_name = py ''Country '' @ country_name @ py '' not found in merged.''"

text \<open>
  Lines 152 to 155, one pass of the loop on the frame and the lines printed so far.
\<close>

fun comtrade_update ::
  "comtrade_row list \<times> pystr list \<Rightarrow> int \<times> pystr \<Rightarrow> comtrade_row list \<times> pystr list" where
  "comtrade_update (merged, printed) (m49_code, country_name) =
     (if Some country_name \<notin> set (map country merged)
      then (merged, printed @ [not_found_message country_name])
      else (map (\<lambda>r. if country r = Some country_name
                      then r\<lparr> m49_comtrade := Some m49_code \<rparr> else r) merged,
            printed))"

definition comtrade_remap :: "merged_row list \<Rightarrow> comtrade_row list \<times> pystr list" where
  "comtrade_remap merged =
     foldl comtrade_update (map init_comtrade merged, []) alternate_comtrade_m49_codes"

subsection \<open>Non-country rows\<close>

text \<open>Line 157: \<open>merged['non_country_region'] = False\<close>.\<close>

definition init_non_country_region :: "comtrade_row \<Rightarrow> final_row" where
  "init_non_country_region r =
     \<lparr> region = region r, subregion = subregion r, m49 = m49 r, iso3 = iso3 r, iso2 = iso2 r,
       ldc = ldc r, country = country r, latitude = latitude r, longitude = longitude r,
       m49_comtrade = m49_comtrade r, non_country_region = False \<rparr>"

definition m49_non_country :: "(int \<times> pystr option \<times> pystr) list" where
  "m49_non_country =
     [(899, None, py ''NES''),
      (568, Some (py ''Europe''), py ''NES''),
      (490, Some (py ''Asia''), py ''NES''),
      (577, Some (py ''Africa''), py ''NES''),
      (837, None, py ''Bunkers''),
      (838, None, py ''Free Zones''),
      (839, None, py ''Special Categories'')]"

text \<open>
  A row of \<open>_non_country_df\<close> (lines 169 to 175) as it stands in the concatenated frame: the
  columns it does not have are NaN there.
\<close>

definition non_country_row :: "int \<times> pystr option \<times> pystr \<Rightarrow> final_row" where
  "non_country_row t =
     \<lparr> region = fst (snd t), subregion = None, m49 = Some (fst t), iso3 = None, iso2 = None,
       ldc = Some False, country = Some (snd (snd t)), latitude = None, longitude = None,
       m49_comtrade = Some (fst t), non_country_region = True \<rparr>"

definition non_country_df :: "final_row list" where
  "non_country_df = map non_country_row m49_non_country"

text \<open>
  Line 178: \<open>astype(int)\<close> on a column that holds whole numbers or NaN. It raises when a
  value is NaN and leaves the numbers as they are otherwise.
\<close>

definition astype_int :: "final_row list \<Rightarrow> error + final_row list" where
  "astype_int df =
     (if None \<in> set (map m49_comtrade df) then Inl IntCastingNaNError else Inr df)"

text \<open>Lines 127 to 179: the table that is handed to the writer.\<close>

definition reconcile ::
  "pystr raw_centroid list \<Rightarrow> pystr un_raw list \<Rightarrow> error + final_row list \<times> pystr list" where
  "reconcile centroid_text un_text =
     (let centroids = fetch_centroids centroid_text;
          un_data = fetch_un_data un_text;
          merged = merge_step un_data centroids;
          remapped = comtrade_remap merged;
          merged = map init_non_country_region (fst remapped);
          merged = merged @ non_country_df
      in case astype_int merged of
           Inl e \<Rightarrow> Inl e
         | Inr merged \<Rightarrow> Inr (sort_values country merged, snd remapped))"

subsection \<open>Writing\<close>

datatype cell = Text pystr | Integer int | Floating real | Boolean bool | NaN

definition text_cell :: "pystr option \<Rightarrow> cell" where
  "text_cell c = (case c of None \<Rightarrow> NaN | Some s \<Rightarrow> Text s)"

definition int_cell :: "int option \<Rightarrow> cell" where
  "int_cell c = (case c of None \<Rightarrow> NaN | Some i \<Rightarrow> Integer i)"

definition float_cell :: "real option \<Rightarrow> cell" where
  "float_cell c = (case c of None \<Rightarrow> NaN | Some x \<Rightarrow> Floating x)"

definition bool_cell :: "bool option \<Rightarrow> cell" where
  "bool_cell c = (case c of None \<Rightarrow> NaN | Some b \<Rightarrow> Boolean b)"

text \<open>
  The columns of the final frame by name. The selection before the writer is by name, so the
  order of the columns in the frame (which depends on the column order of the centroid
  source) plays no role.
\<close>

definition frame_row :: "final_row \<Rightarrow> (string \<times> cell) list" where
  "frame_row r =
     [(''region'', text_cell (region r)), (''subregion'', text_cell (subregion r)),
      (''m49'', int_cell (m49 r)), (''iso3'', text_cell (iso3 r)),
      (''iso2'', text_cell (iso2 r)), (''ldc'', bool_cell (ldc r)),
      (''country'', text_cell (country r)), (''latitude'', float_cell (latitude r)),
      (''longitude'', float_cell (longitude r)),
      (''m49_comtrade'', int_cell (m49_comtrade r)),
      (''non_country_region'', Boolean (non_country_region r))]"

definition frame_columns :: "string list" where
  "frame_columns =
     [''region'', ''subregion'', ''m49'', ''iso3'', ''iso2'', ''ldc'', ''country'',
      ''latitude'', ''longitude'', ''m49_comtrade'', ''non_country_region'']"

definition output_columns :: "string list" where
  "output_columns =
     [''region'', ''subregion'', ''country'', ''iso2'', ''iso3'', ''m49'', ''m49_comtrade'',
      ''latitude'', ''longitude'', ''ldc'', ''non_country_region'']"

text \<open>\<open>merged[[names]]\<close> on the rows: the cells of the named columns, in the order asked for.\<close>

definition select_cells :: "string list \<Rightarrow> final_row \<Rightarrow> cell list" where
  "select_cells names r = map (\<lambda>n. case map_of (frame_row r) n of Some c \<Rightarrow> c | None \<Rightarrow> NaN) names"

record csv =
  header :: "string list"
  lines :: "cell list list"

text \<open>
  \<open>to_csv(path, index=...)\<close>: a header line with the column names and one line per row. With
  \<open>index=True\<close> every line would start with the row number, under an empty name.
\<close>

definition to_csv :: "bool \<Rightarrow> string list \<Rightarrow> cell list list \<Rightarrow> csv" where
  "to_csv index cols rows =
     (if index
      then \<lparr> header = [] # cols,
             lines = map (\<lambda>(i, r). Integer (int i) # r) (enumerate 0 rows) \<rparr>
      else \<lparr> header = cols, lines = rows \<rparr>)"

record run =
  written :: csv
  printed :: "pystr list"

definition main :: "pystr raw_centroid list \<Rightarrow> pystr un_raw list \<Rightarrow> error + run" where
  "main centroid_text un_text =
     (case reconcile centroid_text un_text of
        Inl e \<Rightarrow> Inl e
      | Inr (merged, out) \<Rightarrow>
          (case select_columns output_columns frame_columns of
             Inl e \<Rightarrow> Inl e
           | Inr cols \<Rightarrow>
               Inr \<lparr> written = to_csv False cols (map (select_cells cols) merged),
                     printed = out @
                       [py ''Country data has been fetched and saved to 'countries.csv'.'',
                        py ''You can now use this data in your application.''] \<rparr>))"

section \<open>Auxiliary functions of the proofs\<close>

text \<open>What line 155 does to one row, for one entry of the override table.\<close>

definition override_row :: "comtrade_row \<Rightarrow> int \<times> pystr \<Rightarrow> comtrade_row" where
  "override_row r e = (if country r = Some (snd e) then r\<lparr> m49_comtrade := Some (fst e) \<rparr> else r)"

text \<open>The rows an outer merge yields for one left row.\<close>

definition join_left :: "('l \<Rightarrow> 'k) \<Rightarrow> ('r \<Rightarrow> 'k) \<Rightarrow> 'r list \<Rightarrow> 'l \<Rightarrow> ('l option \<times> 'r option) list" where
  "join_left left_on right_on right l =
     (case [r \<leftarrow> right. right_on r = left_on l] of
        [] \<Rightarrow> [(Some l, None)]
      | ms \<Rightarrow> map (\<lambda>r. (Some l, Some r)) ms)"

text \<open>The frame \<open>merged\<close> after the concatenation of line 177, before \<open>astype(int)\<close>.\<close>

definition concat_frame :: "pystr raw_centroid list \<Rightarrow> pystr un_raw list \<Rightarrow> final_row list" where
  "concat_frame ctext utext =
     map init_non_country_region
       (fst (comtrade_remap (merge_step (fetch_un_data utext) (fetch_centroids ctext))))
     @ non_country_df"

subsection \<open>Sample inputs\<close>

text \<open>Lines of the two sources, for the theorems that run the program on concrete tables.\<close>

definition un_line :: "string \<Rightarrow> int \<Rightarrow> string \<Rightarrow> string \<Rightarrow> string \<Rightarrow> pystr un_raw" where
  "un_line name code a3 a2 marker =
     \<lparr> Country_or_Area = py name, M49_Code = code, Region_Name = py ''Region'',
       Sub_region_Name = py ''Sub-region'', ISO_alpha3_Code = py a3, ISO_alpha2_Code = py a2,
       Least_Developed_Countries_LDC = py marker \<rparr>"

definition centroid_line :: "string \<Rightarrow> string \<Rightarrow> pystr raw_centroid" where
  "centroid_line name code =
     \<lparr> raw_centroid.longitude = 10, raw_centroid.latitude = 20, COUNTRY = py name,
       ISO = py code, COUNTRYAFF = py name, AFF_ISO = py code \<rparr>"

definition sample_un :: "pystr un_raw list" where
  "sample_un =
     [un_line ''China, Hong Kong Special Administrative Region'' 344 ''HKG'' ''HK'' '''',
      un_line ''China, Macao Special Administrative Region'' 446 ''MAC'' ''MO'' '''',
      un_line ''Aland Islands'' 248 ''ALA'' ''AX'' '''',
      un_line ''Western Sahara'' 732 ''ESH'' ''EH'' '''',
      un_line ''Namibia'' 516 ''NAM'' ''NA'' '''',
      un_line ''Chad'' 148 ''TCD'' ''TD'' ''x'',
      un_line ''Sark'' 680 '''' '''' '''']"

definition sample_centroids :: "pystr raw_centroid list" where
  "sample_centroids =
     [centroid_line ''Namibia'' ''NA'', centroid_line ''France'' ''FR'',
      centroid_line ''Canarias'' ''ES'']"

section \<open>Properties of the frame operations\<close>

lemma read_cell_False: "read_cell False s = Some s"
  by (simp add: read_cell_def)

lemma merge_left_indicator_left_only:
  "map fst [p \<leftarrow> merge_left_indicator on_cols left right. snd p = left_only]
     = [l \<leftarrow> left. on_cols l \<notin> set right]"
proof (induction left)
  case Nil
  then show ?case by (simp add: merge_left_indicator_def)
next
  case (Cons l left)
  show ?case
  proof (cases "[k \<leftarrow> right. k = on_cols l]")
    case Nil
    then have "on_cols l \<notin> set right"
      by (auto simp: filter_empty_conv)
    with Nil Cons show ?thesis
      by (simp add: merge_left_indicator_def)
  next
    case (Cons k ks)
    then have "k \<in> set [k \<leftarrow> right. k = on_cols l]" by simp
    then have "on_cols l \<in> set right" by auto
    with Cons Cons.IH show ?thesis
      by (simp add: merge_left_indicator_def)
  qed
qed

lemma mset_sort_values: "mset (sort_values by_col df) = mset df"
  by (induction df) (auto simp: sort_values_def)

lemma sort_values_keys:
  "\<exists>ks n. map by_col (sort_values by_col df) = map Some ks @ replicate n None \<and> sorted ks"
proof -
  let ?s = "sort_key (\<lambda>r. the (by_col r)) [r \<leftarrow> df. by_col r \<noteq> None]"
  have "map by_col ?s = map Some (map (\<lambda>r. the (by_col r)) ?s)"
    by (rule map_idI[symmetric, THEN trans]) auto
  moreover have "map by_col [r \<leftarrow> df. by_col r = None]
      = replicate (length [r \<leftarrow> df. by_col r = None]) None"
    by (induction df) auto
  moreover have "sorted (map (\<lambda>r. the (by_col r)) ?s)"
    by (rule sorted_sort_key)
  ultimately show ?thesis
    unfolding sort_values_def by (metis map_append)
qed

lemma set_sort_values: "set (sort_values by_col df) = set df"
  using mset_sort_values [of by_col df] by (metis set_mset_mset)

lemma length_sort_values: "length (sort_values by_col df) = length df"
  using mset_sort_values [of by_col df] by (metis size_mset)

lemma mset_filter_sort_values:
  "mset (filter P (sort_values by_col df)) = mset (filter P df)"
  by (simp only: mset_filter mset_sort_values)

section \<open>The cleaned centroid table\<close>

lemma exclude_merge_filter:
  "exclude_merge df = [r \<leftarrow> df. (ISO r, COUNTRY r) \<notin> set exclude_rows]"
  by (simp add: exclude_merge_def merge_left_indicator_left_only)

lemma cleaned_rows_ISO: "None \<notin> set (map ISO (cleaned_rows ctext))"
  by (auto simp: cleaned_rows_def read_csv_def read_cell_False strip_columns_def str_strip_def)

lemma fetch_centroids_eq:
  "fetch_centroids ctext = map drop_rename (sort_values ISO (cleaned_rows ctext)) @ missing_lat_lon"
  by (simp add: fetch_centroids_def exclude_merge_filter cleaned_rows_def)

lemma read_csv_filter:
  "[r \<leftarrow> read_csv False ctext. (ISO r, COUNTRY r) \<notin> set exclude_rows]
     = read_csv False [l \<leftarrow> ctext. (Some (ISO l), Some (COUNTRY l)) \<notin> set exclude_rows]"
  by (induction ctext) (simp_all add: read_csv_def read_cell_False)

lemma drop_rename_strip_read:
  "map (\<lambda>r. drop_rename (strip_columns r)) (read_csv False ctext)
     = map (\<lambda>l. \<lparr> centroid.country = Some (strip (COUNTRY l)), iso = Some (strip (ISO l)),
                    latitude = raw_centroid.latitude l,
                    longitude = raw_centroid.longitude l \<rparr>) ctext"
  by (simp add: read_csv_def read_cell_False drop_rename_def strip_columns_def str_strip_def)

lemma cleaned_rows_kept:
  "map drop_rename (cleaned_rows ctext)
     = map (\<lambda>l. \<lparr> centroid.country = Some (strip (COUNTRY l)), iso = Some (strip (ISO l)),
                    latitude = raw_centroid.latitude l,
                    longitude = raw_centroid.longitude l \<rparr>)
         [l \<leftarrow> ctext. (Some (ISO l), Some (COUNTRY l)) \<notin> set exclude_rows]"
  unfolding cleaned_rows_def read_csv_filter map_map comp_def
  by (rule drop_rename_strip_read)

lemma mset_body:
  "mset (map drop_rename (sort_values ISO (cleaned_rows ctext)))
     = mset (map drop_rename (cleaned_rows ctext))"
  by (simp add: mset_sort_values)

lemma sorted_body_iso:
  "\<exists>ks. map centroid.iso (map drop_rename (sort_values ISO (cleaned_rows ctext))) = map Some ks
        \<and> sorted ks"
proof -
  obtain ks n
    where k: "map ISO (sort_values ISO (cleaned_rows ctext)) = map Some ks @ replicate n None"
      and s: "sorted ks"
    using sort_values_keys by blast
  have "None \<notin> set (map ISO (sort_values ISO (cleaned_rows ctext)))"
    using cleaned_rows_ISO [of ctext] mset_sort_values [of ISO "cleaned_rows ctext"]
    by (metis mset_map set_mset_mset)
  with k have "n = 0" by (cases n) auto
  with k have "map centroid.iso (map drop_rename (sort_values ISO (cleaned_rows ctext))) = map Some ks"
    by (simp add: drop_rename_def comp_def)
  with s show ?thesis by blast
qed

lemma missing_iso:
  "map centroid.iso missing_lat_lon
     = [Some (py ''HK''), Some (py ''MO''), Some (py ''AX''), Some (py ''EH'')]"
  by (simp add: missing_lat_lon_def)

lemmas centroid_eval = fetch_centroids_eq cleaned_rows_def read_csv_def read_cell_def
  exclude_rows_def strip_columns_def str_strip_def strip_def
  py_isspace_def sort_values_def drop_rename_def missing_lat_lon_def

lemma mset_fetch_centroids:
  "mset (fetch_centroids ctext) =
     mset (map (\<lambda>l. \<lparr> centroid.country = Some (strip (COUNTRY l)), iso = Some (strip (ISO l)),
                        latitude = raw_centroid.latitude l,
                        longitude = raw_centroid.longitude l \<rparr>)
            [l \<leftarrow> ctext. (Some (ISO l), Some (COUNTRY l)) \<notin> set exclude_rows])
     + mset missing_lat_lon"
proof -
  have "mset (fetch_centroids ctext)
      = mset (map drop_rename (cleaned_rows ctext)) + mset missing_lat_lon"
    unfolding fetch_centroids_eq mset_append mset_body ..
  then show ?thesis unfolding cleaned_rows_kept .
qed

lemma kept_line_in_fetch_centroids:
  assumes "l \<in> set ctext" "(Some (ISO l), Some (COUNTRY l)) \<notin> set exclude_rows"
  shows "\<lparr> centroid.country = Some (strip (COUNTRY l)), iso = Some (strip (ISO l)),
           latitude = raw_centroid.latitude l, longitude = raw_centroid.longitude l \<rparr>
         \<in> set (fetch_centroids ctext)"
proof -
  have "set (fetch_centroids ctext) = set_mset (mset (fetch_centroids ctext))" by simp
  also have "\<dots> = (\<lambda>l. \<lparr> centroid.country = Some (strip (COUNTRY l)), iso = Some (strip (ISO l)),
                        latitude = raw_centroid.latitude l,
                        longitude = raw_centroid.longitude l \<rparr>) `
            set [l \<leftarrow> ctext. (Some (ISO l), Some (COUNTRY l)) \<notin> set exclude_rows]
          \<union> set missing_lat_lon"
    unfolding mset_fetch_centroids by simp
  finally show ?thesis using assms by auto
qed

text \<open>
  C5, as the spec states it, fails: the exclusion is decided on the fields as read, before
  they are stripped. A line whose ISO field is \<open>"TF "\<close> and whose country is
  \<open>"Juan De Nova Island"\<close> has a stripped pair that is in the exclusion list, and it is kept.
\<close>

theorem centroid_exclusion_counterexample:
  "(str_strip (Some (py ''TF '')), str_strip (Some (py ''Juan De Nova Island'')))
     \<in> set exclude_rows
   \<and> fetch_centroids
        [\<lparr> raw_centroid.longitude = 42, raw_centroid.latitude = -17,
           COUNTRY = py ''Juan De Nova Island'', ISO = py ''TF '',
           COUNTRYAFF = py ''France'', AFF_ISO = py ''FR'' \<rparr>]
      = \<lparr> centroid.country = Some (py ''Juan De Nova Island''), iso = Some (py ''TF''),
          latitude = -17, longitude = 42 \<rparr> # missing_lat_lon"
  by (simp add: centroid_eval)

text \<open>
  C5, amended: a line of the centroid source is removed if and only if its ISO and COUNTRY
  fields, exactly as read (not stripped), are one of the five excluded pairs. The cleaned
  table holds, up to order, one row for every other line, with both fields stripped and the
  coordinates unchanged, and the four manual rows. So a line that matches an excluded pair in
  one field only is kept.
\<close>

theorem centroid_exclusion_on_raw_fields:
  "mset (fetch_centroids ctext) =
     mset (map (\<lambda>l. \<lparr> centroid.country = Some (strip (COUNTRY l)), iso = Some (strip (ISO l)),
                        latitude = raw_centroid.latitude l,
                        longitude = raw_centroid.longitude l \<rparr>)
            [l \<leftarrow> ctext. (Some (ISO l), Some (COUNTRY l)) \<notin> set exclude_rows])
     + mset missing_lat_lon"
  by (rule mset_fetch_centroids)

text \<open>
  C7, as the spec states it, fails: the source may list an ISO code twice, or list one of the
  four manual territories. With one line for Hong Kong the cleaned table has \<open>HK\<close> twice.
\<close>

theorem centroid_iso_duplicate_counterexample:
  "\<not> distinct (map centroid.iso (fetch_centroids
        [\<lparr> raw_centroid.longitude = 114, raw_centroid.latitude = 22,
           COUNTRY = py ''Hong Kong'', ISO = py ''HK'',
           COUNTRYAFF = py ''China'', AFF_ISO = py ''CN'' \<rparr>]))"
  by (simp add: centroid_eval)

text \<open>
  C7, amended: the iso codes of the cleaned centroid table are pairwise different exactly
  when the stripped ISO codes of the lines that pass the exclusion are pairwise different and
  none of them is HK, MO, AX or EH.
\<close>

theorem centroid_iso_distinct_iff:
  "distinct (map centroid.iso (fetch_centroids ctext)) \<longleftrightarrow>
     distinct (map (\<lambda>l. strip (ISO l))
                 [l \<leftarrow> ctext. (Some (ISO l), Some (COUNTRY l)) \<notin> set exclude_rows])
     \<and> (\<forall>l \<in> set [l \<leftarrow> ctext. (Some (ISO l), Some (COUNTRY l)) \<notin> set exclude_rows].
           strip (ISO l) \<notin> set [py ''HK'', py ''MO'', py ''AX'', py ''EH''])"
proof -
  let ?kept = "[l \<leftarrow> ctext. (Some (ISO l), Some (COUNTRY l)) \<notin> set exclude_rows]"
  let ?body = "map drop_rename (sort_values ISO (cleaned_rows ctext))"
  have m: "mset (map centroid.iso ?body) = mset (map (\<lambda>l. Some (strip (ISO l))) ?kept)"
  proof -
    have "mset (map centroid.iso ?body) = image_mset centroid.iso (mset ?body)"
      by (rule mset_map)
    also have "\<dots> = image_mset centroid.iso (mset (map drop_rename (cleaned_rows ctext)))"
      by (simp only: mset_body)
    also have "\<dots> = mset (map (\<lambda>l. Some (strip (ISO l))) ?kept)"
      unfolding cleaned_rows_kept by (simp add: multiset.map_comp comp_def)
    finally show ?thesis .
  qed
  have d: "distinct (map centroid.iso ?body) \<longleftrightarrow> distinct (map (\<lambda>l. strip (ISO l)) ?kept)"
  proof -
    have "distinct (map centroid.iso ?body)
        \<longleftrightarrow> distinct (map (\<lambda>l. Some (strip (ISO l))) ?kept)"
      using m by (rule mset_eq_imp_distinct_iff)
    also have "\<dots> \<longleftrightarrow> distinct (map Some (map (\<lambda>l. strip (ISO l)) ?kept))"
      by (simp add: comp_def)
    also have "\<dots> \<longleftrightarrow> distinct (map (\<lambda>l. strip (ISO l)) ?kept)"
      by (simp only: distinct_map) auto
    finally show ?thesis .
  qed
  have s: "set (map centroid.iso ?body) = (\<lambda>l. Some (strip (ISO l))) ` set ?kept"
    using m by (metis (no_types, lifting) list.set_map set_mset_mset)
  have "distinct (map centroid.iso (fetch_centroids ctext)) \<longleftrightarrow>
          distinct (map centroid.iso ?body)
          \<and> set (map centroid.iso ?body) \<inter> set (map centroid.iso missing_lat_lon) = {}"
    unfolding fetch_centroids_eq map_append distinct_append
    by (simp add: missing_iso)
  also have "\<dots> \<longleftrightarrow> distinct (map (\<lambda>l. strip (ISO l)) ?kept)
          \<and> (\<forall>l \<in> set ?kept. strip (ISO l) \<notin> set [py ''HK'', py ''MO'', py ''AX'', py ''EH''])"
    unfolding d s missing_iso by (auto simp: image_iff)
  finally show ?thesis .
qed

theorem centroid_iso_distinct_witness:
  "distinct (map centroid.iso (fetch_centroids
      [\<lparr> raw_centroid.longitude = 2, raw_centroid.latitude = 46,
         COUNTRY = py ''France'', ISO = py '' FR'',
         COUNTRYAFF = py ''France'', AFF_ISO = py ''FR'' \<rparr>,
       \<lparr> raw_centroid.longitude = 55, raw_centroid.latitude = -21,
         COUNTRY = py ''Canarias'', ISO = py ''ES'',
         COUNTRYAFF = py ''Spain'', AFF_ISO = py ''ES'' \<rparr>,
       \<lparr> raw_centroid.longitude = -3, raw_centroid.latitude = 40,
         COUNTRY = py ''Spain'', ISO = py ''ES'',
         COUNTRYAFF = py ''Spain'', AFF_ISO = py ''ES'' \<rparr>]))"
  using centroid_iso_distinct_iff
    [of "[\<lparr> raw_centroid.longitude = 2, raw_centroid.latitude = 46,
         COUNTRY = py ''France'', ISO = py '' FR'',
         COUNTRYAFF = py ''France'', AFF_ISO = py ''FR'' \<rparr>,
       \<lparr> raw_centroid.longitude = 55, raw_centroid.latitude = -21,
         COUNTRY = py ''Canarias'', ISO = py ''ES'',
         COUNTRYAFF = py ''Spain'', AFF_ISO = py ''ES'' \<rparr>,
       \<lparr> raw_centroid.longitude = -3, raw_centroid.latitude = 40,
         COUNTRY = py ''Spain'', ISO = py ''ES'',
         COUNTRYAFF = py ''Spain'', AFF_ISO = py ''ES'' \<rparr>]"]
  by (simp add: exclude_rows_def strip_def py_isspace_def)

text \<open>
  C8, as the spec states it, fails: the sort comes before the four manual rows are appended,
  so these rows are last, in the order HK, MO, AX, EH, whatever the other codes are.
\<close>

theorem centroid_sort_counterexample:
  "map centroid.iso (fetch_centroids
        [\<lparr> raw_centroid.longitude = 29, raw_centroid.latitude = -19,
           COUNTRY = py ''Zimbabwe'', ISO = py ''ZW'',
           COUNTRYAFF = py ''Zimbabwe'', AFF_ISO = py ''ZW'' \<rparr>])
     = [Some (py ''ZW''), Some (py ''HK''), Some (py ''MO''), Some (py ''AX''), Some (py ''EH'')]
   \<and> \<not> sorted [py ''ZW'', py ''HK'', py ''MO'', py ''AX'', py ''EH'']"
  by (simp add: centroid_eval)

text \<open>
  C8, amended: the cleaned centroid table is the rows that pass the exclusion, sorted by
  their stripped ISO code, followed by the four manual rows in the fixed order Hong Kong,
  Macau, Aland Islands, Western Sahara (not at sorted positions). The sorted part holds the
  same rows with the same field values as before the sort.
\<close>

theorem centroids_sorted_then_manual_rows:
  "\<exists>body ks. fetch_centroids ctext = body @ missing_lat_lon
      \<and> map centroid.iso body = map Some ks \<and> sorted ks
      \<and> mset body =
          mset (map (\<lambda>l. \<lparr> centroid.country = Some (strip (COUNTRY l)), iso = Some (strip (ISO l)),
                             latitude = raw_centroid.latitude l,
                             longitude = raw_centroid.longitude l \<rparr>)
                 [l \<leftarrow> ctext. (Some (ISO l), Some (COUNTRY l)) \<notin> set exclude_rows])"
proof -
  let ?body = "map drop_rename (sort_values ISO (cleaned_rows ctext))"
  obtain ks where "map centroid.iso ?body = map Some ks" "sorted ks"
    using sorted_body_iso by blast
  moreover have "fetch_centroids ctext = ?body @ missing_lat_lon"
    by (rule fetch_centroids_eq)
  moreover note mset_body [of ctext, unfolded cleaned_rows_kept]
  ultimately show ?thesis by blast
qed

section \<open>The cleaned classification table\<close>

lemma fetch_un_data_rows:
  "fetch_un_data utext =
     map (\<lambda>l. \<lparr> un_row.region = Some (Region_Name l), subregion = Some (Sub_region_Name l),
                  m49 = M49_Code l, iso3 = Some (ISO_alpha3_Code l),
                  iso2 = Some (ISO_alpha2_Code l),
                  ldc = (Least_Developed_Countries_LDC l = py ''x'') \<rparr>) utext"
  by (simp add: fetch_un_data_def read_html_def read_cell_False select_un_def ldc_marker_def)

lemma fetch_un_data_columns_ok:
  assumes "set [''M49 Code'', ''Region Name'', ''Sub-region Name'', ''ISO-alpha3 Code'',
                ''ISO-alpha2 Code'', ''Least Developed Countries (LDC)''] \<subseteq> set cols"
  shows "fetch_un_data_columns cols = Inr [''region'', ''subregion'', ''m49'', ''iso3'', ''iso2'', ''ldc'']"
proof -
  let ?ren = "rename_columns un_rename_mapping (assign_column ''ldc'' cols)"
  have a: "set cols \<subseteq> set (assign_column ''ldc'' cols)" "''ldc'' \<in> set (assign_column ''ldc'' cols)"
    by (auto simp: assign_column_def)
  have r: "\<And>c. c \<in> set (assign_column ''ldc'' cols) \<Longrightarrow>
      (case map_of un_rename_mapping c of Some c' \<Rightarrow> c' | None \<Rightarrow> c) \<in> set ?ren"
    by (simp add: rename_columns_def)
  have "''region'' \<in> set ?ren"
    using r [of "''Region Name''"] a assms by (auto simp: un_rename_mapping_def)
  moreover have "''subregion'' \<in> set ?ren"
    using r [of "''Sub-region Name''"] a assms by (auto simp: un_rename_mapping_def)
  moreover have "''m49'' \<in> set ?ren"
    using r [of "''M49 Code''"] a assms by (auto simp: un_rename_mapping_def)
  moreover have "''iso3'' \<in> set ?ren"
    using r [of "''ISO-alpha3 Code''"] a assms by (auto simp: un_rename_mapping_def)
  moreover have "''iso2'' \<in> set ?ren"
    using r [of "''ISO-alpha2 Code''"] a assms by (auto simp: un_rename_mapping_def)
  moreover have "''ldc'' \<in> set ?ren"
    using r [of "''ldc''"] a by (auto simp: un_rename_mapping_def)
  ultimately have "set un_selection \<subseteq> set ?ren"
    by (simp add: un_selection_def)
  moreover have "''Least Developed Countries (LDC)'' \<in> set cols" using assms by simp
  ultimately show ?thesis
    by (simp add: fetch_un_data_columns_def select_columns_def un_selection_def)
qed

lemma fetch_un_data_columns_result:
  "fetch_un_data_columns cols = Inr out \<Longrightarrow> out = [''region'', ''subregion'', ''m49'', ''iso3'', ''iso2'', ''ldc'']"
  by (auto simp: fetch_un_data_columns_def select_columns_def un_selection_def split: if_splits)

text \<open>
  C3, as the spec states it, fails: \<open>fetch_un_data\<close> renames \<open>Country or Area\<close> to
  \<open>country\<close> but its final selection (lines 120 to 122) keeps six columns, and country is
  not one of them. No classification row carries a country name into the merge.
\<close>

theorem un_columns_counterexample:
  "fetch_un_data_columns
      [''Country or Area'', ''M49 Code'', ''Region Name'', ''Sub-region Name'',
       ''ISO-alpha3 Code'', ''ISO-alpha2 Code'', ''Least Developed Countries (LDC)'']
     = Inr [''region'', ''subregion'', ''m49'', ''iso3'', ''iso2'', ''ldc'']
   \<and> fetch_un_data
        [\<lparr> Country_or_Area = py ''France'', M49_Code = 250, Region_Name = py ''Europe'',
           Sub_region_Name = py ''Western Europe'', ISO_alpha3_Code = py ''FRA'',
           ISO_alpha2_Code = py ''FR'', Least_Developed_Countries_LDC = py '''' \<rparr>]
     = [\<lparr> un_row.region = Some (py ''Europe''), subregion = Some (py ''Western Europe''),
          m49 = 250, iso3 = Some (py ''FRA''), iso2 = Some (py ''FR''), ldc = False \<rparr>]"
  by (simp add: fetch_un_data_rows fetch_un_data_columns_def select_columns_def un_selection_def
      rename_columns_def un_rename_mapping_def assign_column_def)

text \<open>
  C3, amended: the cleaned classification table has exactly the six columns region,
  subregion, m49, iso3, iso2 and ldc (no country), whenever the source table has the columns
  they come from. It has one row for every source row, in the same order, with the region,
  sub-region, M49 and ISO cells as read and ldc true exactly when the LDC marker is \<open>x\<close>.
\<close>

theorem un_data_six_columns:
  "(set [''M49 Code'', ''Region Name'', ''Sub-region Name'', ''ISO-alpha3 Code'',
         ''ISO-alpha2 Code'', ''Least Developed Countries (LDC)''] \<subseteq> set cols
      \<longrightarrow> fetch_un_data_columns cols
            = Inr [''region'', ''subregion'', ''m49'', ''iso3'', ''iso2'', ''ldc''])
   \<and> fetch_un_data utext =
       map (\<lambda>l. \<lparr> un_row.region = Some (Region_Name l), subregion = Some (Sub_region_Name l),
                    m49 = M49_Code l, iso3 = Some (ISO_alpha3_Code l),
                    iso2 = Some (ISO_alpha2_Code l),
                    ldc = (Least_Developed_Countries_LDC l = py ''x'') \<rparr>) utext"
  using fetch_un_data_columns_ok [of cols] fetch_un_data_rows [of utext] by blast

theorem un_data_six_columns_witness:
  "set [''M49 Code'', ''Region Name'', ''Sub-region Name'', ''ISO-alpha3 Code'',
        ''ISO-alpha2 Code'', ''Least Developed Countries (LDC)'']
     \<subseteq> set [''Global Code'', ''Country or Area'', ''M49 Code'', ''Region Name'',
             ''Sub-region Name'', ''ISO-alpha3 Code'', ''ISO-alpha2 Code'',
             ''Least Developed Countries (LDC)'']
   \<and> fetch_un_data_columns
        [''Global Code'', ''Country or Area'', ''M49 Code'', ''Region Name'',
         ''Sub-region Name'', ''ISO-alpha3 Code'', ''ISO-alpha2 Code'',
         ''Least Developed Countries (LDC)'']
      = Inr [''region'', ''subregion'', ''m49'', ''iso3'', ''iso2'', ''ldc'']
   \<and> fetch_un_data
        [\<lparr> Country_or_Area = py ''Chad'', M49_Code = 148, Region_Name = py ''Africa'',
           Sub_region_Name = py ''Sub-Saharan Africa'', ISO_alpha3_Code = py ''TCD'',
           ISO_alpha2_Code = py ''TD'', Least_Developed_Countries_LDC = py ''x'' \<rparr>]
      = [\<lparr> un_row.region = Some (py ''Africa''), subregion = Some (py ''Sub-Saharan Africa''),
           m49 = 148, iso3 = Some (py ''TCD''), iso2 = Some (py ''TD''), ldc = True \<rparr>]"
  using un_data_six_columns
    [of "[''Global Code'', ''Country or Area'', ''M49 Code'', ''Region Name'',
         ''Sub-region Name'', ''ISO-alpha3 Code'', ''ISO-alpha2 Code'',
         ''Least Developed Countries (LDC)'']"
        "[\<lparr> Country_or_Area = py ''Chad'', M49_Code = 148, Region_Name = py ''Africa'',
           Sub_region_Name = py ''Sub-Saharan Africa'', ISO_alpha3_Code = py ''TCD'',
           ISO_alpha2_Code = py ''TD'', Least_Developed_Countries_LDC = py ''x'' \<rparr>]"]
  by simp

section \<open>Comtrade codes\<close>

lemma country_override_row: "country (override_row r e) = country r"
  by (simp add: override_row_def)

lemma comtrade_update_fst: "fst (comtrade_update p e) = map (\<lambda>r. override_row r e) (fst p)"
proof (cases p; cases e)
  fix df out code name
  assume p: "p = (df, out)" and e: "e = (code, name)"
  show ?thesis
  proof (cases "Some name \<in> set (map country df)")
    case True
    with p e show ?thesis by (simp add: override_row_def)
  next
    case False
    then have "map (\<lambda>r. override_row r e) df = df"
      by (intro map_idI) (force simp: override_row_def e)
    with False p e show ?thesis by simp
  qed
qed

lemma comtrade_update_snd:
  "snd (comtrade_update p e) =
     snd p @ map not_found_message [n \<leftarrow> [snd e]. Some n \<notin> set (map country (fst p))]"
  by (cases p; cases e) simp

lemma comtrade_update_country: "map country (fst (comtrade_update p e)) = map country (fst p)"
  by (simp add: comtrade_update_fst country_override_row comp_def)

lemma foldl_comtrade_update:
  "fst (foldl comtrade_update p es) = map (\<lambda>r. foldl override_row r es) (fst p)
   \<and> snd (foldl comtrade_update p es) =
       snd p @ map not_found_message [n \<leftarrow> map snd es. Some n \<notin> set (map country (fst p))]"
proof (induction es arbitrary: p)
  case Nil
  then show ?case by simp
next
  case (Cons e es)
  have f: "fst (foldl comtrade_update (comtrade_update p e) es)
      = map (\<lambda>r. foldl override_row r es) (map (\<lambda>r. override_row r e) (fst p))"
    using Cons.IH [of "comtrade_update p e"] by (simp only: comtrade_update_fst)
  have s: "snd (foldl comtrade_update (comtrade_update p e) es)
      = (snd p @ map not_found_message [n \<leftarrow> [snd e]. Some n \<notin> set (map country (fst p))])
        @ map not_found_message [n \<leftarrow> map snd es. Some n \<notin> set (map country (fst p))]"
    using Cons.IH [of "comtrade_update p e"]
    by (simp only: comtrade_update_snd comtrade_update_country)
  show ?case
    unfolding foldl_Cons f s by (simp add: comp_def)
qed

lemma override_all:
  "foldl override_row (init_comtrade r) alternate_comtrade_m49_codes =
     (init_comtrade r)\<lparr> m49_comtrade :=
        (if country r = Some (py ''France'') then Some 251
         else if country r = Some (py ''Norway'') then Some 579
         else if country r = Some (py ''India'') then Some 699
         else if country r = Some (py ''Switzerland'') then Some 757
         else if country r = Some (py ''United States'') then Some 842
         else m49 r) \<rparr>"
  by (simp add: alternate_comtrade_m49_codes_def override_row_def init_comtrade_def)

lemma comtrade_remap_closed_form:
  "fst (comtrade_remap merged) =
     map (\<lambda>r. (init_comtrade r)\<lparr> m49_comtrade :=
        (if country r = Some (py ''France'') then Some 251
         else if country r = Some (py ''Norway'') then Some 579
         else if country r = Some (py ''India'') then Some 699
         else if country r = Some (py ''Switzerland'') then Some 757
         else if country r = Some (py ''United States'') then Some 842
         else m49 r) \<rparr>) merged
   \<and> snd (comtrade_remap merged) =
       map not_found_message
         [n \<leftarrow> [py ''France'', py ''Norway'', py ''India'', py ''Switzerland'', py ''United States''].
            Some n \<notin> set (map country merged)]"
proof -
  have c: "map country (map init_comtrade merged) = map country merged"
    by (simp add: init_comtrade_def comp_def)
  have n: "map snd alternate_comtrade_m49_codes
      = [py ''France'', py ''Norway'', py ''India'', py ''Switzerland'', py ''United States'']"
    by (simp add: alternate_comtrade_m49_codes_def)
  show ?thesis
    unfolding comtrade_remap_def
    using foldl_comtrade_update [of "(map init_comtrade merged, [])" alternate_comtrade_m49_codes]
    unfolding fst_conv snd_conv c n
    by (simp add: override_all comp_def)
qed

text \<open>
  C2: after the merge \<open>m49_comtrade\<close> starts as \<open>m49\<close> in every row. For each of the five
  entries of the override table, every row whose country is that name gets the override code;
  when no row has that name a line is printed and the run goes on. So \<open>m49_comtrade\<close> is
  \<open>m49\<close> in every row whose country is not one of the five names, and no other field changes.
\<close>

theorem comtrade_remap_overrides:
  "fst (comtrade_remap merged) =
     map (\<lambda>r. (init_comtrade r)\<lparr> m49_comtrade :=
        (if country r = Some (py ''France'') then Some 251
         else if country r = Some (py ''Norway'') then Some 579
         else if country r = Some (py ''India'') then Some 699
         else if country r = Some (py ''Switzerland'') then Some 757
         else if country r = Some (py ''United States'') then Some 842
         else m49 r) \<rparr>) merged
   \<and> snd (comtrade_remap merged) =
       map not_found_message
         [n \<leftarrow> [py ''France'', py ''Norway'', py ''India'', py ''Switzerland'', py ''United States''].
            Some n \<notin> set (map country merged)]
   \<and> (\<forall>i < length merged.
         country (merged ! i) \<notin> Some ` set (map snd alternate_comtrade_m49_codes)
         \<longrightarrow> m49_comtrade (fst (comtrade_remap merged) ! i) = m49 (merged ! i))"
proof -
  note cf = comtrade_remap_closed_form [of merged]
  have "\<forall>i < length merged.
         country (merged ! i) \<notin> Some ` set (map snd alternate_comtrade_m49_codes)
         \<longrightarrow> m49_comtrade (fst (comtrade_remap merged) ! i) = m49 (merged ! i)"
    unfolding conjunct1 [OF cf]
    by (simp add: alternate_comtrade_m49_codes_def)
  with cf show ?thesis by blast
qed

theorem comtrade_remap_overrides_witness:
  "fst (comtrade_remap
      [\<lparr> region = Some (py ''Europe''), subregion = Some (py ''Western Europe''),
         m49 = Some 250, iso3 = Some (py ''FRA''), iso2 = Some (py ''FR''), ldc = Some False,
         country = Some (py ''France''), latitude = Some 46, longitude = Some 2 \<rparr>,
       \<lparr> region = Some (py ''Africa''), subregion = Some (py ''Sub-Saharan Africa''),
         m49 = Some 148, iso3 = Some (py ''TCD''), iso2 = Some (py ''TD''), ldc = Some True,
         country = Some (py ''Chad''), latitude = Some 15, longitude = Some 19 \<rparr>])
   = [\<lparr> region = Some (py ''Europe''), subregion = Some (py ''Western Europe''),
         m49 = Some 250, iso3 = Some (py ''FRA''), iso2 = Some (py ''FR''), ldc = Some False,
         country = Some (py ''France''), latitude = Some 46, longitude = Some 2,
         m49_comtrade = Some 251 \<rparr>,
       \<lparr> region = Some (py ''Africa''), subregion = Some (py ''Sub-Saharan Africa''),
         m49 = Some 148, iso3 = Some (py ''TCD''), iso2 = Some (py ''TD''), ldc = Some True,
         country = Some (py ''Chad''), latitude = Some 15, longitude = Some 19,
         m49_comtrade = Some 148 \<rparr>]
   \<and> snd (comtrade_remap
      [\<lparr> region = Some (py ''Europe''), subregion = Some (py ''Western Europe''),
         m49 = Some 250, iso3 = Some (py ''FRA''), iso2 = Some (py ''FR''), ldc = Some False,
         country = Some (py ''France''), latitude = Some 46, longitude = Some 2 \<rparr>,
       \<lparr> region = Some (py ''Africa''), subregion = Some (py ''Sub-Saharan Africa''),
         m49 = Some 148, iso3 = Some (py ''TCD''), iso2 = Some (py ''TD''), ldc = Some True,
         country = Some (py ''Chad''), latitude = Some 15, longitude = Some 19 \<rparr>])
   = [not_found_message (py ''Norway''), not_found_message (py ''India''),
      not_found_message (py ''Switzerland''), not_found_message (py ''United States'')]
   \<and> Some (py ''Chad'') \<notin> Some ` set (map snd alternate_comtrade_m49_codes)"
  using comtrade_remap_overrides
    [of "[\<lparr> region = Some (py ''Europe''), subregion = Some (py ''Western Europe''),
         m49 = Some 250, iso3 = Some (py ''FRA''), iso2 = Some (py ''FR''), ldc = Some False,
         country = Some (py ''France''), latitude = Some 46, longitude = Some 2 \<rparr>,
       \<lparr> region = Some (py ''Africa''), subregion = Some (py ''Sub-Saharan Africa''),
         m49 = Some 148, iso3 = Some (py ''TCD''), iso2 = Some (py ''TD''), ldc = Some True,
         country = Some (py ''Chad''), latitude = Some 15, longitude = Some 19 \<rparr>]"]
  by (simp add: init_comtrade_def alternate_comtrade_m49_codes_def)

section \<open>The outer merge\<close>

lemma merge_outer_join_left:
  "merge_outer left_on right_on left right =
     concat (map (join_left left_on right_on right) left)
     @ map (\<lambda>r. (None, Some r)) [r \<leftarrow> right. right_on r \<notin> set (map left_on left)]"
  by (simp add: merge_outer_def join_left_def [abs_def])

lemma length_join_left:
  "length (join_left left_on right_on right l) = max 1 (length [r \<leftarrow> right. right_on r = left_on l])"
  by (cases "[r \<leftarrow> right. right_on r = left_on l]") (simp_all add: join_left_def)

lemma set_join_left:
  "set (join_left left_on right_on right l) =
     (if left_on l \<in> right_on ` set right
      then {(Some l, Some r) | r. r \<in> set right \<and> right_on r = left_on l}
      else {(Some l, None)})"
proof (cases "[r \<leftarrow> right. right_on r = left_on l]")
  case Nil
  then have "left_on l \<notin> right_on ` set right"
    by (auto simp: filter_empty_conv)
  with Nil show ?thesis by (simp add: join_left_def)
next
  case (Cons m ms)
  then have "m \<in> set [r \<leftarrow> right. right_on r = left_on l]" by simp
  then have i: "left_on l \<in> right_on ` set right" by force
  have "set (join_left left_on right_on right l)
      = (\<lambda>r. (Some l, Some r)) ` set [r \<leftarrow> right. right_on r = left_on l]"
    using Cons by (simp add: join_left_def)
  with i show ?thesis by auto
qed

lemma length_merge_outer:
  "length (merge_outer left_on right_on left right) =
     (\<Sum>l\<leftarrow>left. max 1 (length [r \<leftarrow> right. right_on r = left_on l]))
     + length [r \<leftarrow> right. right_on r \<notin> set (map left_on left)]"
  by (simp add: merge_outer_join_left length_concat comp_def length_join_left)

lemma key_imageI: "r \<in> set right \<Longrightarrow> right_on r = k \<Longrightarrow> k \<in> right_on ` set right"
  by (metis imageI)

lemma length_filter_disj_le:
  "length [x \<leftarrow> xs. P x \<or> Q x] \<le> length (filter P xs) + length (filter Q xs)"
  by (induction xs) auto

lemma length_filter_disj_eq:
  "(\<And>x. x \<in> set xs \<Longrightarrow> \<not> (P x \<and> Q x)) \<Longrightarrow>
     length [x \<leftarrow> xs. P x \<or> Q x] = length (filter P xs) + length (filter Q xs)"
  by (induction xs) auto

lemma matched_le_sum:
  "length [r \<leftarrow> right. right_on r \<in> set (map left_on left)]
     \<le> (\<Sum>l\<leftarrow>left. max 1 (length [r \<leftarrow> right. right_on r = left_on l]))"
proof (induction left)
  case Nil
  then show ?case by simp
next
  case (Cons l left)
  have "length [r \<leftarrow> right. right_on r \<in> set (map left_on (l # left))]
      = length [r \<leftarrow> right. right_on r = left_on l \<or> right_on r \<in> set (map left_on left)]"
    by simp
  also have "\<dots> \<le> length [r \<leftarrow> right. right_on r = left_on l]
      + length [r \<leftarrow> right. right_on r \<in> set (map left_on left)]"
    by (rule length_filter_disj_le)
  finally show ?case using Cons by simp
qed

lemma length_merge_outer_left: "length left \<le> length (merge_outer left_on right_on left right)"
proof -
  have "length left \<le> (\<Sum>l\<leftarrow>left. max 1 (length [r \<leftarrow> right. right_on r = left_on l]))"
    by (induction left) auto
  then show ?thesis by (simp add: length_merge_outer)
qed

lemma length_merge_outer_right: "length right \<le> length (merge_outer left_on right_on left right)"
proof -
  have "length right = length [r \<leftarrow> right. right_on r \<in> set (map left_on left)]
      + length [r \<leftarrow> right. right_on r \<notin> set (map left_on left)]"
    by (rule sum_length_filter_compl [symmetric])
  with matched_le_sum [where right = right and left = left and right_on = right_on
      and left_on = left_on] show ?thesis
    by (simp add: length_merge_outer)
qed

lemma length_merge_outer_distinct_right:
  assumes "distinct (map right_on right)"
  shows "length (merge_outer left_on right_on left right) \<le> length left + length right"
proof -
  have one: "length [r \<leftarrow> right. right_on r = k] \<le> 1" for k
    using assms by (induction right) (auto simp: filter_empty_conv dest: key_imageI)
  have "(\<Sum>l\<leftarrow>left. max 1 (length [r \<leftarrow> right. right_on r = left_on l])) = length left"
  proof (induction left)
    case Nil
    then show ?case by simp
  next
    case (Cons l left)
    with one [of "left_on l"] show ?case by simp
  qed
  moreover have "length [r \<leftarrow> right. right_on r \<notin> set (map left_on left)] \<le> length right"
    by (rule length_filter_le)
  ultimately show ?thesis by (simp add: length_merge_outer)
qed

lemma length_merge_outer_distinct_left:
  assumes "distinct (map left_on left)"
  shows "length (merge_outer left_on right_on left right) \<le> length left + length right"
proof -
  from assms have "(\<Sum>l\<leftarrow>left. max 1 (length [r \<leftarrow> right. right_on r = left_on l]))
      \<le> length left + length [r \<leftarrow> right. right_on r \<in> set (map left_on left)]"
  proof (induction left)
    case Nil
    then show ?case by simp
  next
    case (Cons l left)
    then have "\<And>r. r \<in> set right \<Longrightarrow>
        \<not> (right_on r = left_on l \<and> right_on r \<in> set (map left_on left))"
      by auto
    then have "length [r \<leftarrow> right. right_on r = left_on l \<or> right_on r \<in> set (map left_on left)]
        = length [r \<leftarrow> right. right_on r = left_on l]
          + length [r \<leftarrow> right. right_on r \<in> set (map left_on left)]"
      by (rule length_filter_disj_eq)
    with Cons show ?case by simp
  qed
  moreover have "length right = length [r \<leftarrow> right. right_on r \<in> set (map left_on left)]
      + length [r \<leftarrow> right. right_on r \<notin> set (map left_on left)]"
    by (rule sum_length_filter_compl [symmetric])
  ultimately show ?thesis by (simp add: length_merge_outer)
qed

lemma set_merge_outer:
  "set (merge_outer left_on right_on left right) =
     {(Some l, Some r) | l r. l \<in> set left \<and> r \<in> set right \<and> right_on r = left_on l}
     \<union> {(Some l, None) | l. l \<in> set left \<and> left_on l \<notin> right_on ` set right}
     \<union> {(None, Some r) | r. r \<in> set right \<and> right_on r \<notin> left_on ` set left}"
  unfolding merge_outer_join_left set_append set_concat set_map image_image set_join_left
  by (auto split: if_splits dest: key_imageI)

section \<open>The run as a whole\<close>

lemma reconcile_eq:
  "reconcile ctext utext =
     (if None \<in> set (map m49_comtrade (concat_frame ctext utext)) then Inl IntCastingNaNError
      else Inr (sort_values country (concat_frame ctext utext),
                snd (comtrade_remap (merge_step (fetch_un_data utext) (fetch_centroids ctext)))))"
proof (cases "None \<in> set (map m49_comtrade (concat_frame ctext utext))")
  case True
  then show ?thesis
    unfolding reconcile_def Let_def astype_int_def concat_frame_def by simp
next
  case False
  then show ?thesis
    unfolding reconcile_def Let_def astype_int_def concat_frame_def by simp
qed

lemma reconcile_Inr:
  assumes "reconcile ctext utext = Inr (table, out)"
  shows "table = sort_values country (concat_frame ctext utext)"
    and "None \<notin> set (map m49_comtrade (concat_frame ctext utext))"
    and "out = snd (comtrade_remap (merge_step (fetch_un_data utext) (fetch_centroids ctext)))"
  using assms unfolding reconcile_eq by (auto split: if_splits)

lemma select_output_columns: "select_columns output_columns frame_columns = Inr output_columns"
  by (simp add: select_columns_def output_columns_def frame_columns_def)

lemma main_eq:
  "main ctext utext =
     (case reconcile ctext utext of
        Inl e \<Rightarrow> Inl e
      | Inr (merged, out) \<Rightarrow>
          Inr \<lparr> written = \<lparr> header = output_columns,
                            lines = map (select_cells output_columns) merged \<rparr>,
                printed = out @
                  [py ''Country data has been fetched and saved to 'countries.csv'.'',
                   py ''You can now use this data in your application.''] \<rparr>)"
  by (simp add: main_def select_output_columns to_csv_def split: sum.splits prod.splits)

lemma main_Inr:
  assumes "main ctext utext = Inr run"
  shows "header (written run) = output_columns"
    and "lines (written run)
           = map (select_cells output_columns) (sort_values country (concat_frame ctext utext))"
    and "None \<notin> set (map m49_comtrade (concat_frame ctext utext))"
proof -
  from assms obtain table out where r: "reconcile ctext utext = Inr (table, out)"
    and run: "run = \<lparr> written = \<lparr> header = output_columns,
                            lines = map (select_cells output_columns) table \<rparr>,
                printed = out @
                  [py ''Country data has been fetched and saved to 'countries.csv'.'',
                   py ''You can now use this data in your application.''] \<rparr>"
    unfolding main_eq by (auto split: sum.splits prod.splits)
  from run show "header (written run) = output_columns" by simp
  from run reconcile_Inr(1) [OF r]
  show "lines (written run)
           = map (select_cells output_columns) (sort_values country (concat_frame ctext utext))"
    by simp
  from reconcile_Inr(2) [OF r]
  show "None \<notin> set (map m49_comtrade (concat_frame ctext utext))" .
qed

lemma main_Inl:
  "main ctext utext = Inl e \<longleftrightarrow>
     e = IntCastingNaNError \<and> None \<in> set (map m49_comtrade (concat_frame ctext utext))"
  unfolding main_eq reconcile_eq by (auto split: if_splits)

lemma select_cells_output:
  "select_cells output_columns r =
     [text_cell (region r), text_cell (subregion r), text_cell (country r),
      text_cell (iso2 r), text_cell (iso3 r), int_cell (m49 r), int_cell (m49_comtrade r),
      float_cell (latitude r), float_cell (longitude r), bool_cell (ldc r),
      Boolean (non_country_region r)]"
  by (simp add: select_cells_def output_columns_def frame_row_def)

subsection \<open>Non-country rows\<close>

lemma non_country_df_flags:
  "r \<in> set non_country_df \<Longrightarrow>
     non_country_region r \<and> m49_comtrade r = m49 r \<and> m49 r \<noteq> None \<and> ldc r = Some False
     \<and> iso2 r = None \<and> iso3 r = None \<and> latitude r = None \<and> longitude r = None"
  by (auto simp: non_country_df_def non_country_row_def)

lemma non_country_df_m49:
  "map m49 non_country_df
     = [Some 899, Some 568, Some 490, Some 577, Some 837, Some 838, Some 839]"
  by (simp add: non_country_df_def non_country_row_def m49_non_country_def)

lemma filter_concat_frame_True:
  "[r \<leftarrow> concat_frame ctext utext. non_country_region r] = non_country_df"
proof -
  have "[r \<leftarrow> non_country_df. non_country_region r] = non_country_df"
    by (rule filter_True) (simp add: non_country_df_flags)
  then show ?thesis
    by (simp add: concat_frame_def filter_map comp_def init_non_country_region_def)
qed

lemma filter_concat_frame_False:
  "[r \<leftarrow> concat_frame ctext utext. \<not> non_country_region r] =
     map init_non_country_region
       (fst (comtrade_remap (merge_step (fetch_un_data utext) (fetch_centroids ctext))))"
proof -
  have "[r \<leftarrow> non_country_df. \<not> non_country_region r] = []"
    by (simp add: filter_empty_conv non_country_df_flags)
  then show ?thesis
    by (simp add: concat_frame_def filter_map comp_def init_non_country_region_def)
qed

text \<open>
  C4: in the final table the rows with \<open>non_country_region\<close> true are exactly the seven
  synthetic rows, with the M49 codes 899, 568, 490, 577, 837, 838, 839, and every row that
  comes from the merge of the two sources has it false. Each synthetic row has
  \<open>m49_comtrade = m49\<close>, \<open>ldc\<close> false and no iso2 and iso3 code.
\<close>

theorem synthetic_rows_flagged:
  assumes "reconcile ctext utext = Inr (table, out)"
  shows "mset [r \<leftarrow> table. non_country_region r] = mset non_country_df
    \<and> mset [r \<leftarrow> table. \<not> non_country_region r] =
        mset (map init_non_country_region
               (fst (comtrade_remap (merge_step (fetch_un_data utext) (fetch_centroids ctext)))))
    \<and> map m49 non_country_df
        = [Some 899, Some 568, Some 490, Some 577, Some 837, Some 838, Some 839]
    \<and> (\<forall>r \<in> set non_country_df.
          non_country_region r \<and> m49_comtrade r = m49 r \<and> ldc r = Some False
          \<and> iso2 r = None \<and> iso3 r = None)"
proof -
  have t: "table = sort_values country (concat_frame ctext utext)"
    using assms by (rule reconcile_Inr(1))
  have "mset [r \<leftarrow> table. non_country_region r] = mset non_country_df"
    unfolding t mset_filter_sort_values filter_concat_frame_True ..
  moreover have "mset [r \<leftarrow> table. \<not> non_country_region r] =
        mset (map init_non_country_region
               (fst (comtrade_remap (merge_step (fetch_un_data utext) (fetch_centroids ctext)))))"
    unfolding t mset_filter_sort_values filter_concat_frame_False ..
  ultimately show ?thesis
    using non_country_df_m49 non_country_df_flags by blast
qed

subsection \<open>When the run aborts\<close>

lemma m49_comtrade_update: "m49_comtrade (r\<lparr> m49_comtrade := v \<rparr>) = v"
  by simp

lemma override_code_None:
  "(if country r = Some (py ''France'') then Some (251::int)
    else if country r = Some (py ''Norway'') then Some 579
    else if country r = Some (py ''India'') then Some 699
    else if country r = Some (py ''Switzerland'') then Some 757
    else if country r = Some (py ''United States'') then Some 842
    else m49 r) = None \<longleftrightarrow>
   m49 r = None \<and> country r \<notin> Some ` set (map snd alternate_comtrade_m49_codes)"
  by (auto simp: alternate_comtrade_m49_codes_def)

lemma m49_comtrade_None_iff:
  "None \<in> set (map m49_comtrade (concat_frame ctext utext)) \<longleftrightarrow>
     (\<exists>r \<in> set (merge_step (fetch_un_data utext) (fetch_centroids ctext)).
        m49 r = None \<and> country r \<notin> Some ` set (map snd alternate_comtrade_m49_codes))"
proof -
  let ?M = "merge_step (fetch_un_data utext) (fetch_centroids ctext)"
  have n: "None \<notin> set (map m49_comtrade non_country_df)"
    using non_country_df_flags by force
  have "None \<in> set (map m49_comtrade (concat_frame ctext utext)) \<longleftrightarrow>
      None \<in> set (map m49_comtrade (fst (comtrade_remap ?M)))"
    using n by (auto simp: concat_frame_def init_non_country_region_def)
  also have "\<dots> \<longleftrightarrow> (\<exists>r \<in> set ?M.
        m49 r = None \<and> country r \<notin> Some ` set (map snd alternate_comtrade_m49_codes))"
  proof -
    have "None \<in> set (map m49_comtrade (fst (comtrade_remap ?M))) \<longleftrightarrow>
        (\<exists>r \<in> set ?M. None =
          (if country r = Some (py ''France'') then Some (251::int)
           else if country r = Some (py ''Norway'') then Some 579
           else if country r = Some (py ''India'') then Some 699
           else if country r = Some (py ''Switzerland'') then Some 757
           else if country r = Some (py ''United States'') then Some 842
           else m49 r))"
      unfolding conjunct1 [OF comtrade_remap_closed_form] set_map image_image
      by (simp only: image_iff m49_comtrade_update)
    then show ?thesis
      by (simp only: override_code_None eq_commute [of None])
  qed
  finally show ?thesis .
qed

lemma join_row_m49: "m49 (join_row p) = None \<longleftrightarrow> fst p = None"
  by (simp add: join_row_def)

lemma merge_step_centroid_only:
  "(\<exists>r \<in> set (merge_step un_data centroids). m49 r = None \<and> country r \<notin> N) \<longleftrightarrow>
     (\<exists>c \<in> set centroids. centroid.iso c \<notin> set (map un_row.iso2 un_data)
        \<and> centroid.country c \<notin> N)"
proof
  assume "\<exists>r \<in> set (merge_step un_data centroids). m49 r = None \<and> country r \<notin> N"
  then obtain p where p: "p \<in> set (merge_outer un_row.iso2 centroid.iso un_data centroids)"
    and "m49 (join_row p) = None" and c: "country (join_row p) \<notin> N"
    by (auto simp: merge_step_def)
  then have "fst p = None" by (simp add: join_row_m49)
  with p obtain x where "p = (None, Some x)" "x \<in> set centroids"
    "centroid.iso x \<notin> un_row.iso2 ` set un_data"
    unfolding set_merge_outer by auto
  with c show "\<exists>c \<in> set centroids. centroid.iso c \<notin> set (map un_row.iso2 un_data)
        \<and> centroid.country c \<notin> N"
    by (auto simp: join_row_def)
next
  assume "\<exists>c \<in> set centroids. centroid.iso c \<notin> set (map un_row.iso2 un_data)
        \<and> centroid.country c \<notin> N"
  then obtain x where x: "x \<in> set centroids" "centroid.iso x \<notin> un_row.iso2 ` set un_data"
    "centroid.country x \<notin> N"
    by auto
  then have "(None, Some x) \<in> set (merge_outer un_row.iso2 centroid.iso un_data centroids)"
    unfolding set_merge_outer by simp
  then have "join_row (None, Some x) \<in> set (merge_step un_data centroids)"
    by (simp add: merge_step_def)
  moreover have "m49 (join_row (None, Some x)) = None"
    "country (join_row (None, Some x)) = centroid.country x"
    by (simp_all add: join_row_def)
  ultimately show "\<exists>r \<in> set (merge_step un_data centroids). m49 r = None \<and> country r \<notin> N"
    using x(3) by metis
qed

lemmas sample_eval = sample_un_def sample_centroids_def un_line_def centroid_line_def
  centroid_eval fetch_un_data_rows alternate_comtrade_m49_codes_def

lemma sample_centroids_clean:
  "fetch_centroids sample_centroids =
     [\<lparr> centroid.country = Some (py ''France''), iso = Some (py ''FR''),
        latitude = 20, longitude = 10 \<rparr>,
      \<lparr> centroid.country = Some (py ''Namibia''), iso = Some (py ''NA''),
        latitude = 20, longitude = 10 \<rparr>] @ missing_lat_lon"
  by (simp add: sample_eval)

lemma sample_un_iso2:
  "map un_row.iso2 (fetch_un_data sample_un) =
     [Some (py ''HK''), Some (py ''MO''), Some (py ''AX''), Some (py ''EH''),
      Some (py ''NA''), Some (py ''TD''), Some []]"
  by (simp add: sample_eval)

lemma sample_runs: "None \<notin> set (map m49_comtrade (concat_frame sample_centroids sample_un))"
  unfolding m49_comtrade_None_iff merge_step_centroid_only sample_un_iso2 sample_centroids_clean
  by (simp add: missing_lat_lon_def alternate_comtrade_m49_codes_def)

lemma sample_reconcile:
  "reconcile sample_centroids sample_un =
     Inr (sort_values country (concat_frame sample_centroids sample_un),
          snd (comtrade_remap (merge_step (fetch_un_data sample_un)
                                          (fetch_centroids sample_centroids))))"
  using sample_runs by (simp add: reconcile_eq)

lemma sample_main:
  "main sample_centroids sample_un =
     Inr \<lparr> written = \<lparr> header = output_columns,
                       lines = map (select_cells output_columns)
                                 (sort_values country (concat_frame sample_centroids sample_un)) \<rparr>,
           printed = snd (comtrade_remap (merge_step (fetch_un_data sample_un)
                                          (fetch_centroids sample_centroids))) @
             [py ''Country data has been fetched and saved to 'countries.csv'.'',
              py ''You can now use this data in your application.''] \<rparr>"
  by (simp add: main_eq sample_reconcile)

text \<open>
  C9, as stated, fails: a centroid row without a classification match does not always abort
  the run. In the sample the centroid row of France (FR) has no classification row, so its
  \<open>m49\<close> is absent; but France is one of the five override names, its \<open>m49_comtrade\<close>
  becomes 251, the integer coercion succeeds and the file is written.
\<close>

theorem abort_counterexample:
  "Some (py ''FR'') \<in> set (map centroid.iso (fetch_centroids sample_centroids))
   \<and> Some (py ''FR'') \<notin> set (map un_row.iso2 (fetch_un_data sample_un))
   \<and> \<not> isl (main sample_centroids sample_un)"
proof -
  have "main sample_centroids sample_un \<noteq> Inl e" for e
    using sample_runs by (simp add: main_Inl)
  then have "\<not> isl (main sample_centroids sample_un)"
    by (cases "main sample_centroids sample_un") auto
  then show ?thesis
    unfolding sample_un_iso2 sample_centroids_clean by (simp add: missing_lat_lon_def)
qed

text \<open>
  C9, amended: the run aborts in the integer coercion of \<open>m49_comtrade\<close>, before anything is
  written, if and only if some cleaned centroid row has an iso code that no classification
  row has as iso2 and a country that is not one of the five override names. The writer is
  reached exactly when every cleaned centroid row has a classification match or an
  override name.
\<close>

theorem abort_iff_unmatched_centroid_without_override:
  "(main ctext utext = Inl IntCastingNaNError \<longleftrightarrow>
      (\<exists>c \<in> set (fetch_centroids ctext).
          centroid.iso c \<notin> set (map un_row.iso2 (fetch_un_data utext))
          \<and> centroid.country c \<notin> Some ` set (map snd alternate_comtrade_m49_codes)))
   \<and> ((\<exists>run. main ctext utext = Inr run) \<longleftrightarrow>
      (\<forall>c \<in> set (fetch_centroids ctext).
          centroid.iso c \<in> set (map un_row.iso2 (fetch_un_data utext))
          \<or> centroid.country c \<in> Some ` set (map snd alternate_comtrade_m49_codes)))"
proof -
  let ?B = "\<exists>c \<in> set (fetch_centroids ctext).
          centroid.iso c \<notin> set (map un_row.iso2 (fetch_un_data utext))
          \<and> centroid.country c \<notin> Some ` set (map snd alternate_comtrade_m49_codes)"
  have a: "main ctext utext = Inl IntCastingNaNError \<longleftrightarrow> ?B"
    unfolding main_Inl m49_comtrade_None_iff merge_step_centroid_only by simp
  have "(\<exists>run. main ctext utext = Inr run) \<longleftrightarrow> \<not> ?B"
  proof (cases "main ctext utext")
    case (Inl e)
    then have "e = IntCastingNaNError" by (simp add: main_Inl)
    with Inl a show ?thesis by simp
  next
    case (Inr run)
    with a show ?thesis by simp
  qed
  with a show ?thesis by blast
qed

theorem abort_iff_witness:
  "main [centroid_line ''Chad'' ''TD''] [un_line ''France'' 250 ''FRA'' ''FR'' '''']
     = Inl IntCastingNaNError
   \<and> (\<exists>run. main sample_centroids sample_un = Inr run)"
proof -
  have "main [centroid_line ''Chad'' ''TD''] [un_line ''France'' 250 ''FRA'' ''FR'' '''']
     = Inl IntCastingNaNError"
    using abort_iff_unmatched_centroid_without_override
      [of "[centroid_line ''Chad'' ''TD'']" "[un_line ''France'' 250 ''FRA'' ''FR'' '''']"]
    by (simp add: un_line_def centroid_line_def centroid_eval fetch_un_data_rows
        alternate_comtrade_m49_codes_def)
  moreover have "\<exists>run. main sample_centroids sample_un = Inr run"
    using abort_iff_unmatched_centroid_without_override [of sample_centroids sample_un]
    unfolding sample_un_iso2 sample_centroids_clean
    by (simp add: missing_lat_lon_def alternate_comtrade_m49_codes_def)
  ultimately show ?thesis by blast
qed

theorem synthetic_rows_flagged_witness:
  "reconcile sample_centroids sample_un =
     Inr (sort_values country (concat_frame sample_centroids sample_un),
          snd (comtrade_remap (merge_step (fetch_un_data sample_un)
                                          (fetch_centroids sample_centroids))))
   \<and> mset [r \<leftarrow> sort_values country (concat_frame sample_centroids sample_un).
             non_country_region r] = mset non_country_df"
  using sample_reconcile synthetic_rows_flagged [OF sample_reconcile] by blast

subsection \<open>The written table\<close>

text \<open>
  C6: the written table has a header line with exactly the columns region, subregion,
  country, iso2, iso3, m49, m49_comtrade, latitude, longitude, ldc, non_country_region, in
  this order, and every line has exactly the cells of these columns (no row-index cell). The
  lines are sorted by country in ascending order; the rows without a country (\<open>sort_values\<close>
  puts NaN last) follow the rows with one.
\<close>

theorem output_sorted_with_fixed_columns:
  assumes "main ctext utext = Inr run"
  shows "header (written run) =
           [''region'', ''subregion'', ''country'', ''iso2'', ''iso3'', ''m49'', ''m49_comtrade'',
            ''latitude'', ''longitude'', ''ldc'', ''non_country_region'']
    \<and> (\<exists>(table :: final_row list) ks n.
          lines (written run) =
            map (\<lambda>r. [text_cell (region r), text_cell (subregion r), text_cell (country r),
                       text_cell (iso2 r), text_cell (iso3 r), int_cell (m49 r),
                       int_cell (m49_comtrade r), float_cell (latitude r),
                       float_cell (longitude r), bool_cell (ldc r),
                       Boolean (non_country_region r)]) table
          \<and> map country table = map Some ks @ replicate n None \<and> sorted ks)"
proof -
  let ?table = "sort_values country (concat_frame ctext utext)"
  have "header (written run) = output_columns"
    using assms by (rule main_Inr(1))
  then have h: "header (written run) =
           [''region'', ''subregion'', ''country'', ''iso2'', ''iso3'', ''m49'', ''m49_comtrade'',
            ''latitude'', ''longitude'', ''ldc'', ''non_country_region'']"
    by (simp add: output_columns_def)
  have "lines (written run) = map (select_cells output_columns) ?table"
    using assms by (rule main_Inr(2))
  then have l: "lines (written run) =
            map (\<lambda>r. [text_cell (region r), text_cell (subregion r), text_cell (country r),
                       text_cell (iso2 r), text_cell (iso3 r), int_cell (m49 r),
                       int_cell (m49_comtrade r), float_cell (latitude r),
                       float_cell (longitude r), bool_cell (ldc r),
                       Boolean (non_country_region r)]) ?table"
    by (simp only: select_cells_output [abs_def])
  obtain ks n where "map country ?table = map Some ks @ replicate n None" "sorted ks"
    using sort_values_keys by blast
  with l have "lines (written run) =
            map (\<lambda>r. [text_cell (region r), text_cell (subregion r), text_cell (country r),
                       text_cell (iso2 r), text_cell (iso3 r), int_cell (m49 r),
                       int_cell (m49_comtrade r), float_cell (latitude r),
                       float_cell (longitude r), bool_cell (ldc r),
                       Boolean (non_country_region r)]) ?table
          \<and> map country ?table = map Some ks @ replicate n None \<and> sorted ks"
    by (intro conjI)
  then have "\<exists>(table :: final_row list) ks n. lines (written run) =
            map (\<lambda>r. [text_cell (region r), text_cell (subregion r), text_cell (country r),
                       text_cell (iso2 r), text_cell (iso3 r), int_cell (m49 r),
                       int_cell (m49_comtrade r), float_cell (latitude r),
                       float_cell (longitude r), bool_cell (ldc r),
                       Boolean (non_country_region r)]) table
          \<and> map country table = map Some ks @ replicate n None \<and> sorted ks"
    by (intro exI)
  with h show ?thesis by (intro conjI)
qed

theorem output_sorted_with_fixed_columns_witness:
  "\<exists>run. main sample_centroids sample_un = Inr run
     \<and> header (written run) =
           [''region'', ''subregion'', ''country'', ''iso2'', ''iso3'', ''m49'', ''m49_comtrade'',
            ''latitude'', ''longitude'', ''ldc'', ''non_country_region'']"
  using sample_main output_sorted_with_fixed_columns [OF sample_main] by blast

subsection \<open>Text that looks like a missing value\<close>

lemma read_cell_True_NA: "read_cell True (py ''NA'') = None \<and> read_cell True [] = None"
  by (simp add: read_cell_def default_na_values_def)

lemma un_row_in_merge_step:
  assumes "u \<in> set un_data"
  shows "\<exists>m \<in> set (merge_step un_data centroids). iso2 m = un_row.iso2 u"
proof (cases "un_row.iso2 u \<in> centroid.iso ` set centroids")
  case True
  then obtain c where "c \<in> set centroids" "centroid.iso c = un_row.iso2 u" by auto
  with assms have "(Some u, Some c) \<in> set (merge_outer un_row.iso2 centroid.iso un_data centroids)"
    unfolding set_merge_outer by simp
  then have "join_row (Some u, Some c) \<in> set (merge_step un_data centroids)"
    by (simp add: merge_step_def)
  moreover have "iso2 (join_row (Some u, Some c)) = un_row.iso2 u"
    by (simp add: join_row_def)
  ultimately show ?thesis by blast
next
  case False
  with assms have "(Some u, None) \<in> set (merge_outer un_row.iso2 centroid.iso un_data centroids)"
    unfolding set_merge_outer by simp
  then have "join_row (Some u, None) \<in> set (merge_step un_data centroids)"
    by (simp add: merge_step_def)
  moreover have "iso2 (join_row (Some u, None)) = un_row.iso2 u"
    by (simp add: join_row_def)
  ultimately show ?thesis by blast
qed

lemma merged_iso2_in_concat_frame:
  assumes "m \<in> set (merge_step (fetch_un_data utext) (fetch_centroids ctext))"
  shows "\<exists>r \<in> set (concat_frame ctext utext). iso2 r = iso2 m"
proof -
  let ?g = "\<lambda>r. init_non_country_region ((init_comtrade r)\<lparr> m49_comtrade :=
        (if country r = Some (py ''France'') then Some 251
         else if country r = Some (py ''Norway'') then Some 579
         else if country r = Some (py ''India'') then Some 699
         else if country r = Some (py ''Switzerland'') then Some 757
         else if country r = Some (py ''United States'') then Some 842
         else m49 r) \<rparr>)"
  have "?g m \<in> set (concat_frame ctext utext)"
    unfolding concat_frame_def conjunct1 [OF comtrade_remap_closed_form]
    using assms by simp
  moreover have "iso2 (?g m) = iso2 m"
    by (simp add: init_non_country_region_def init_comtrade_def)
  ultimately show ?thesis by blast
qed

lemma un_iso2_written:
  assumes "l \<in> set utext" "main ctext utext = Inr run"
  shows "\<exists>line \<in> set (lines (written run)). line ! 3 = Text (ISO_alpha2_Code l)"
proof -
  from assms(1) have "\<exists>u \<in> set (fetch_un_data utext). un_row.iso2 u = Some (ISO_alpha2_Code l)"
    unfolding fetch_un_data_rows by force
  then obtain u where "u \<in> set (fetch_un_data utext)" "un_row.iso2 u = Some (ISO_alpha2_Code l)"
    by blast
  then obtain m where "m \<in> set (merge_step (fetch_un_data utext) (fetch_centroids ctext))"
    "iso2 m = Some (ISO_alpha2_Code l)"
    using un_row_in_merge_step by metis
  then obtain r where r: "r \<in> set (concat_frame ctext utext)" "iso2 r = Some (ISO_alpha2_Code l)"
    using merged_iso2_in_concat_frame by metis
  have "lines (written run)
      = map (select_cells output_columns) (sort_values country (concat_frame ctext utext))"
    using assms(2) by (rule main_Inr(2))
  with r(1) have "select_cells output_columns r \<in> set (lines (written run))"
    by (simp add: set_sort_values)
  moreover have "select_cells output_columns r ! 3 = Text (ISO_alpha2_Code l)"
    by (simp add: select_cells_output r(2) text_cell_def)
  ultimately show ?thesis by blast
qed

text \<open>
  C10: both sources are read with \<open>keep_default_na=False\<close>, so every text cell is kept as
  the string it is, also \<open>"NA"\<close> and the empty string. A centroid line with the ISO code
  \<open>"NA"\<close> is in the cleaned centroid table with the iso code \<open>"NA"\<close>; the iso2 text of
  every classification line, \<open>"NA"\<close> included, is the iso2 cell of a line of the written
  table; an empty iso2 cell is the empty string and an empty LDC marker gives \<open>ldc\<close> false.
\<close>

theorem marker_texts_kept_as_strings:
  "read_cell False s = Some s
   \<and> (\<forall>l \<in> set ctext. ISO l = py ''NA'' \<longrightarrow>
         \<lparr> centroid.country = Some (strip (COUNTRY l)), iso = Some (py ''NA''),
           latitude = raw_centroid.latitude l, longitude = raw_centroid.longitude l \<rparr>
         \<in> set (fetch_centroids ctext))
   \<and> (\<forall>l \<in> set utext. \<forall>run. main ctext utext = Inr run \<longrightarrow>
         (\<exists>line \<in> set (lines (written run)). line ! 3 = Text (ISO_alpha2_Code l)))
   \<and> map un_row.iso2 (fetch_un_data utext) = map (\<lambda>l. Some (ISO_alpha2_Code l)) utext
   \<and> map un_row.ldc (fetch_un_data utext)
       = map (\<lambda>l. Least_Developed_Countries_LDC l = py ''x'') utext"
proof -
  have a: "\<forall>l \<in> set ctext. ISO l = py ''NA'' \<longrightarrow>
         \<lparr> centroid.country = Some (strip (COUNTRY l)), iso = Some (py ''NA''),
           latitude = raw_centroid.latitude l, longitude = raw_centroid.longitude l \<rparr>
         \<in> set (fetch_centroids ctext)"
  proof (intro ballI impI)
    fix l assume l: "l \<in> set ctext" "ISO l = py ''NA''"
    then have "(Some (ISO l), Some (COUNTRY l)) \<notin> set exclude_rows"
      by (simp add: exclude_rows_def)
    from kept_line_in_fetch_centroids [OF l(1) this] l(2)
    show "\<lparr> centroid.country = Some (strip (COUNTRY l)), iso = Some (py ''NA''),
           latitude = raw_centroid.latitude l, longitude = raw_centroid.longitude l \<rparr>
         \<in> set (fetch_centroids ctext)"
      by (simp add: strip_def py_isspace_def)
  qed
  have b: "\<forall>l \<in> set utext. \<forall>run. main ctext utext = Inr run \<longrightarrow>
         (\<exists>line \<in> set (lines (written run)). line ! 3 = Text (ISO_alpha2_Code l))"
    using un_iso2_written by blast
  have c: "map un_row.iso2 (fetch_un_data utext) = map (\<lambda>l. Some (ISO_alpha2_Code l)) utext"
    "map un_row.ldc (fetch_un_data utext)
       = map (\<lambda>l. Least_Developed_Countries_LDC l = py ''x'') utext"
    by (simp_all add: fetch_un_data_rows comp_def)
  from read_cell_False a b c show ?thesis by (intro conjI)
qed

theorem marker_texts_kept_as_strings_witness:
  "centroid_line ''Namibia'' ''NA'' \<in> set sample_centroids
   \<and> \<lparr> centroid.country = Some (py ''Namibia''), iso = Some (py ''NA''),
       latitude = 20, longitude = 10 \<rparr> \<in> set (fetch_centroids sample_centroids)
   \<and> un_line ''Namibia'' 516 ''NAM'' ''NA'' '''' \<in> set sample_un
   \<and> (\<exists>run. main sample_centroids sample_un = Inr run
        \<and> (\<exists>line \<in> set (lines (written run)). line ! 3 = Text (py ''NA'')))"
proof -
  note t = marker_texts_kept_as_strings [of "[]" sample_centroids sample_un]
  have c: "centroid_line ''Namibia'' ''NA'' \<in> set sample_centroids"
    by (simp add: sample_centroids_def)
  have u: "un_line ''Namibia'' 516 ''NAM'' ''NA'' '''' \<in> set sample_un"
    by (simp add: sample_un_def)
  note a = t [THEN conjunct2, THEN conjunct1]
  note b = t [THEN conjunct2, THEN conjunct2, THEN conjunct1]
  have "ISO (centroid_line ''Namibia'' ''NA'') = py ''NA''"
    by (simp add: centroid_line_def)
  from bspec [OF a c, THEN mp, OF this]
  have 1: "\<lparr> centroid.country = Some (py ''Namibia''), iso = Some (py ''NA''),
       latitude = 20, longitude = 10 \<rparr> \<in> set (fetch_centroids sample_centroids)"
    by (simp add: centroid_line_def strip_def py_isspace_def)
  from bspec [OF b u, THEN spec, THEN mp, OF sample_main]
  have "\<exists>line \<in> set (lines (written
      \<lparr> written = \<lparr> header = output_columns,
                       lines = map (select_cells output_columns)
                                 (sort_values country (concat_frame sample_centroids sample_un)) \<rparr>,
           printed = snd (comtrade_remap (merge_step (fetch_un_data sample_un)
                                          (fetch_centroids sample_centroids))) @
             [py ''Country data has been fetched and saved to 'countries.csv'.'',
              py ''You can now use this data in your application.''] \<rparr>)).
      line ! 3 = Text (py ''NA'')"
    by (simp add: un_line_def)
  with sample_main have 2: "\<exists>run. main sample_centroids sample_un = Inr run
        \<and> (\<exists>line \<in> set (lines (written run)). line ! 3 = Text (py ''NA''))"
    by (intro exI conjI)
  from c 1 u 2 show ?thesis by (intro conjI)
qed

subsection \<open>Completeness of the outer merge\<close>

lemma length_comtrade_remap: "length (fst (comtrade_remap merged)) = length merged"
  unfolding conjunct1 [OF comtrade_remap_closed_form] by simp

lemma length_concat_frame:
  "length (concat_frame ctext utext)
     = length (merge_step (fetch_un_data utext) (fetch_centroids ctext)) + 7"
  by (simp add: concat_frame_def length_comtrade_remap non_country_df_def m49_non_country_def)

text \<open>
  C1, as stated, fails in its upper bound: when an iso code is repeated in both tables the
  outer merge yields one row per pair. Two classification rows and two centroid lines for
  HK (with the manual HK row: three centroid rows) give six joined rows, nine rows in all,
  for two classification rows and six centroid rows.
\<close>

theorem outer_merge_fan_out_counterexample:
  "length (fetch_un_data [un_line ''Hong Kong'' 344 ''HKG'' ''HK'' '''',
                           un_line ''Hong Kong (again)'' 344 ''HKG'' ''HK'' ''''])
   + length (fetch_centroids [centroid_line ''Hong Kong'' ''HK'',
                              centroid_line ''Hong Kong Island'' ''HK''])
   < length (merge_step
       (fetch_un_data [un_line ''Hong Kong'' 344 ''HKG'' ''HK'' '''',
                       un_line ''Hong Kong (again)'' 344 ''HKG'' ''HK'' ''''])
       (fetch_centroids [centroid_line ''Hong Kong'' ''HK'',
                         centroid_line ''Hong Kong Island'' ''HK'']))"
  by (simp add: merge_step_def length_merge_outer un_line_def centroid_line_def
      centroid_eval fetch_un_data_rows)

text \<open>
  C1, amended: every cleaned classification row and every cleaned centroid row is in the
  merged table, joined to a row of the other table with the same iso code or alone with the
  fields of the other side absent. The merged table has at least as many rows as the larger
  of the two tables, and at most as many as both together whenever the iso codes are
  pairwise different in at least one of the two tables. When the run writes its output, the
  written lines are the merged rows and the seven synthetic rows, none dropped.
\<close>

theorem outer_merge_keeps_every_row:
  "(\<forall>u \<in> set un_data.
       join_row (Some u, None) \<in> set (merge_step un_data centroids)
       \<or> (\<exists>c \<in> set centroids. centroid.iso c = un_row.iso2 u
             \<and> join_row (Some u, Some c) \<in> set (merge_step un_data centroids)))
   \<and> (\<forall>c \<in> set centroids.
       join_row (None, Some c) \<in> set (merge_step un_data centroids)
       \<or> (\<exists>u \<in> set un_data. centroid.iso c = un_row.iso2 u
             \<and> join_row (Some u, Some c) \<in> set (merge_step un_data centroids)))
   \<and> max (length centroids) (length un_data) \<le> length (merge_step un_data centroids)
   \<and> (distinct (map centroid.iso centroids) \<or> distinct (map un_row.iso2 un_data)
        \<longrightarrow> length (merge_step un_data centroids) \<le> length centroids + length un_data)
   \<and> (\<forall>run. main ctext utext = Inr run \<longrightarrow>
        length (lines (written run))
          = length (merge_step (fetch_un_data utext) (fetch_centroids ctext)) + 7
        \<and> mset (lines (written run))
          = mset (map (select_cells output_columns)
                   (map init_non_country_region
                      (fst (comtrade_remap
                             (merge_step (fetch_un_data utext) (fetch_centroids ctext))))
                    @ non_country_df)))"
proof -
  let ?mo = "merge_outer un_row.iso2 centroid.iso un_data centroids"
  have s: "set (merge_step un_data centroids) = join_row ` set ?mo"
    by (simp add: merge_step_def)
  have l: "length (merge_step un_data centroids) = length ?mo"
    by (simp add: merge_step_def)
  have 1: "\<forall>u \<in> set un_data.
       join_row (Some u, None) \<in> set (merge_step un_data centroids)
       \<or> (\<exists>c \<in> set centroids. centroid.iso c = un_row.iso2 u
             \<and> join_row (Some u, Some c) \<in> set (merge_step un_data centroids))"
  proof
    fix u assume u: "u \<in> set un_data"
    show "join_row (Some u, None) \<in> set (merge_step un_data centroids)
       \<or> (\<exists>c \<in> set centroids. centroid.iso c = un_row.iso2 u
             \<and> join_row (Some u, Some c) \<in> set (merge_step un_data centroids))"
    proof (cases "un_row.iso2 u \<in> centroid.iso ` set centroids")
      case True
      then obtain c where c: "c \<in> set centroids" "centroid.iso c = un_row.iso2 u" by auto
      with u have "(Some u, Some c) \<in> set ?mo" unfolding set_merge_outer by simp
      with c show ?thesis unfolding s by blast
    next
      case False
      with u have "(Some u, None) \<in> set ?mo" unfolding set_merge_outer by simp
      then show ?thesis unfolding s by blast
    qed
  qed
  have 2: "\<forall>c \<in> set centroids.
       join_row (None, Some c) \<in> set (merge_step un_data centroids)
       \<or> (\<exists>u \<in> set un_data. centroid.iso c = un_row.iso2 u
             \<and> join_row (Some u, Some c) \<in> set (merge_step un_data centroids))"
  proof
    fix c assume c: "c \<in> set centroids"
    show "join_row (None, Some c) \<in> set (merge_step un_data centroids)
       \<or> (\<exists>u \<in> set un_data. centroid.iso c = un_row.iso2 u
             \<and> join_row (Some u, Some c) \<in> set (merge_step un_data centroids))"
    proof (cases "centroid.iso c \<in> un_row.iso2 ` set un_data")
      case True
      then obtain u where u: "u \<in> set un_data" "centroid.iso c = un_row.iso2 u" by auto
      with c have "(Some u, Some c) \<in> set ?mo" unfolding set_merge_outer by simp
      with u show ?thesis unfolding s by blast
    next
      case False
      with c have "(None, Some c) \<in> set ?mo" unfolding set_merge_outer by simp
      then show ?thesis unfolding s by blast
    qed
  qed
  have 3: "max (length centroids) (length un_data) \<le> length (merge_step un_data centroids)"
    unfolding l using length_merge_outer_left [of un_data un_row.iso2 centroid.iso centroids]
      length_merge_outer_right [of centroids un_row.iso2 centroid.iso un_data]
    by simp
  have 4: "distinct (map centroid.iso centroids) \<or> distinct (map un_row.iso2 un_data)
        \<longrightarrow> length (merge_step un_data centroids) \<le> length centroids + length un_data"
    unfolding l
    using length_merge_outer_distinct_right [of centroid.iso centroids un_row.iso2 un_data]
      length_merge_outer_distinct_left [of un_row.iso2 un_data centroid.iso centroids]
    by auto
  have 5: "\<forall>run. main ctext utext = Inr run \<longrightarrow>
        length (lines (written run))
          = length (merge_step (fetch_un_data utext) (fetch_centroids ctext)) + 7
        \<and> mset (lines (written run))
          = mset (map (select_cells output_columns)
                   (map init_non_country_region
                      (fst (comtrade_remap
                             (merge_step (fetch_un_data utext) (fetch_centroids ctext))))
                    @ non_country_df))"
  proof (intro allI impI)
    fix run assume "main ctext utext = Inr run"
    then have w: "lines (written run)
        = map (select_cells output_columns) (sort_values country (concat_frame ctext utext))"
      by (rule main_Inr(2))
    have "length (lines (written run))
          = length (merge_step (fetch_un_data utext) (fetch_centroids ctext)) + 7"
      unfolding w by (simp only: length_map length_sort_values length_concat_frame)
    moreover have "mset (lines (written run))
          = mset (map (select_cells output_columns) (concat_frame ctext utext))"
      unfolding w by (simp only: mset_map mset_sort_values)
    ultimately show "length (lines (written run))
          = length (merge_step (fetch_un_data utext) (fetch_centroids ctext)) + 7
        \<and> mset (lines (written run))
          = mset (map (select_cells output_columns)
                   (map init_non_country_region
                      (fst (comtrade_remap
                             (merge_step (fetch_un_data utext) (fetch_centroids ctext))))
                    @ non_country_df))"
      unfolding concat_frame_def by (intro conjI)
  qed
  from 1 2 3 4 5 show ?thesis by (intro conjI)
qed

theorem outer_merge_keeps_every_row_witness:
  "distinct (map centroid.iso (fetch_centroids sample_centroids))
   \<and> length (merge_step (fetch_un_data sample_un) (fetch_centroids sample_centroids))
       \<le> length (fetch_centroids sample_centroids) + length (fetch_un_data sample_un)
   \<and> (\<exists>run. main sample_centroids sample_un = Inr run
        \<and> length (lines (written run))
            = length (merge_step (fetch_un_data sample_un) (fetch_centroids sample_centroids)) + 7)"
proof -
  note t = outer_merge_keeps_every_row
    [of "fetch_un_data sample_un" "fetch_centroids sample_centroids" sample_centroids sample_un]
  note bound = t [THEN conjunct2, THEN conjunct2, THEN conjunct2, THEN conjunct1]
  note written = t [THEN conjunct2, THEN conjunct2, THEN conjunct2, THEN conjunct2]
  have d: "distinct (map centroid.iso (fetch_centroids sample_centroids))"
    unfolding sample_centroids_clean by (simp add: missing_lat_lon_def)
  with bound
  have b: "length (merge_step (fetch_un_data sample_un) (fetch_centroids sample_centroids))
       \<le> length (fetch_centroids sample_centroids) + length (fetch_un_data sample_un)"
    by (intro mp [OF bound] disjI1)
  from written [THEN spec, THEN mp, OF sample_main, THEN conjunct1] sample_main
  have "\<exists>run. main sample_centroids sample_un = Inr run
        \<and> length (lines (written run))
            = length (merge_step (fetch_un_data sample_un) (fetch_centroids sample_centroids)) + 7"
    by (intro exI conjI)
  with d b show ?thesis by (intro conjI)
qed

end
